theory Spec2Isabelle
  imports Main "HOL-Library.AList"
begin

section \<open>Python values used by \<open>oscap_helpers.py\<close>\<close>

text \<open>
  Exceptions are values. \<open>RuntimeError\<close> carries the message the source formats; the
  other constructors are the library exceptions that can escape the functions below
  (\<open>int()\<close> and tuple unpacking raise \<open>ValueError\<close>, a missing dictionary key or XML
  attribute raises \<open>KeyError\<close>, \<open>ElementTree.parse\<close> raises \<open>IOError\<close> or
  \<open>ParseError\<close>, the path compiler of ElementTree raises \<open>SyntaxError\<close>, the file system
  raises \<open>OSError\<close>, a captured child process raises \<open>CalledProcessError\<close>).
\<close>

datatype error =
    RuntimeError string
  | ValueError
  | KeyError
  | IOError
  | ParseError
  | SyntaxError
  | OSError
  | CalledProcessError

text \<open>The apostrophe, written by its code so that it can stand next to a literal.\<close>

definition apos :: string where
  "apos = [CHR 0x27]"

subsection \<open>Decimal text of an integer: \<open>str(i)\<close> and \<open>"%i" % i\<close>\<close>

definition digit_char :: "nat \<Rightarrow> char" where
  "digit_char d = char_of (48 + d)"

function digits :: "nat \<Rightarrow> string" where
  "digits n = (if n < 10 then [digit_char n] else digits (n div 10) @ [digit_char (n mod 10)])"
  by pat_completeness auto
termination
  by (relation "measure id") auto

definition str_int :: "int \<Rightarrow> string" where
  "str_int i = (if i < 0 then CHR ''-'' # digits (nat (- i)) else digits (nat i))"

subsection \<open>Parsing an integer: \<open>int(s)\<close>\<close>

text \<open>
  \<open>int(s)\<close> on a string, base 10, where a character is a code point below 256:
  surrounding whitespace is stripped, one sign is optional, then come decimal digits,
  where single underscores may separate digits. Leading zeros are accepted. Everything
  else raises \<open>ValueError\<close>, here \<open>None\<close>.

  The whitespace \<open>int()\<close> strips is the code points 9 to 13 and 32, and, of the code
  points from 128 on, the two that are Unicode whitespace, 133 and 160. The separators 28
  to 31 are whitespace for \<open>str.isspace\<close> and \<open>str.strip\<close> but not for \<open>int()\<close>, which
  rejects a text that holds one. No code point from 128 to 255 is a decimal digit.
\<close>

definition is_space :: "char \<Rightarrow> bool" where
  "is_space c =
     (let n = (of_char c :: nat) in (9 \<le> n \<and> n \<le> 13) \<or> n = 32 \<or> n = 133 \<or> n = 160)"

definition is_digit :: "char \<Rightarrow> bool" where
  "is_digit c = (let n = (of_char c :: nat) in 48 \<le> n \<and> n \<le> 57)"

definition digit_val :: "char \<Rightarrow> nat" where
  "digit_val c = of_char c - 48"

definition strip :: "string \<Rightarrow> string" where
  "strip s = rev (dropWhile is_space (rev (dropWhile is_space s)))"

fun wf_rest :: "string \<Rightarrow> bool" where
  "wf_rest [] = True"
| "wf_rest [c] = is_digit c"
| "wf_rest (c # d # ds) =
     (if c = CHR ''_'' then is_digit d \<and> wf_rest ds else is_digit c \<and> wf_rest (d # ds))"

fun wf_digits :: "string \<Rightarrow> bool" where
  "wf_digits [] = False"
| "wf_digits (c # cs) = (is_digit c \<and> wf_rest cs)"

definition digits_val :: "string \<Rightarrow> nat" where
  "digits_val s = foldl (\<lambda>acc c. 10 * acc + digit_val c) 0 s"

definition py_int :: "string \<Rightarrow> int option" where
  "py_int s =
     (case strip s of
        [] \<Rightarrow> None
      | c # cs \<Rightarrow>
          (let neg = (c = CHR ''-'');
               body = (if c = CHR ''-'' \<or> c = CHR ''+'' then cs else c # cs)
           in if wf_digits body
              then (let n = int (digits_val (filter (\<lambda>x. x \<noteq> CHR ''_'') body))
                    in Some (if neg then - n else n))
              else None))"

section \<open>Strings\<close>

text \<open>\<open>s.startswith(p)\<close>, \<open>c in s\<close> is \<open>c \<in> set s\<close>, and \<open>s[n:]\<close> is \<open>drop n s\<close>.\<close>

definition startswith :: "string \<Rightarrow> string \<Rightarrow> bool" where
  "startswith s p = (take (length p) s = p)"

text \<open>
  \<open>s.split(sep)\<close> for a one-character separator: every occurrence splits, and the
  result always has at least one part.
\<close>

fun split_on :: "char \<Rightarrow> string \<Rightarrow> string list" where
  "split_on sep [] = [[]]"
| "split_on sep (c # cs) =
     (if c = sep then [] # split_on sep cs
      else (case split_on sep cs of
              [] \<Rightarrow> [[c]]
            | p # ps \<Rightarrow> (c # p) # ps))"

section \<open>Config and EvaluationSpec\<close>

text \<open>
  Both classes live outside this module. \<open>config\<close> has the attributes the module reads.
  \<open>evaluation_spec\<close> has the attributes and the methods the functions below use:
  \<open>is_valid\<close> is the answer of \<open>is_valid()\<close>, and \<open>get_oscap_arguments\<close> is a function of
  the config that may raise.
\<close>

record config =
  oscap_path :: string
  oscap_ssh_path :: string
  oscap_docker_path :: string
  oscap_vm_path :: string
  oscap_chroot_path :: string
  work_in_progress_dir :: string

record evaluation_spec =
  mode :: int
  target :: string
  is_valid :: bool
  get_oscap_arguments :: "config \<Rightarrow> error + string list"

section \<open>Target resolution\<close>

definition cant_split_ssh_target :: error where
  "cant_split_ssh_target = RuntimeError (''Can'' @ apos @ ''t split ssh target.'')"

definition split_ssh_target :: "string \<Rightarrow> error + (string \<times> int)" where
  "split_ssh_target tgt =
     (if \<not> startswith tgt ''ssh://'' \<and> \<not> startswith tgt ''ssh+sudo://''
      then Inl cant_split_ssh_target
      else
        (let without_prefix =
               (if startswith tgt ''ssh+sudo://'' then drop 11 tgt else drop 6 tgt)
         in if CHR '':'' \<in> set without_prefix
            then (case split_on CHR '':'' without_prefix of
                    [host, port_str] \<Rightarrow>
                      (case py_int port_str of
                         None \<Rightarrow> Inl ValueError
                       | Some port \<Rightarrow> Inr (host, port))
                  | _ \<Rightarrow> Inl ValueError)
            else Inr (without_prefix, 22)))"

text \<open>
  The message of the \<open>RuntimeError\<close> raised when the binary a target needs has an empty
  path, and the one for a target of no known form.
\<close>

definition tool_not_found :: "string \<Rightarrow> string \<Rightarrow> error" where
  "tool_not_found tgt tool =
     RuntimeError (''Target '' @ apos @ tgt @ apos @ '' requires the '' @ tool @
                   '' tool which hasn'' @ apos @ ''t been found'')"

definition unrecognized_target :: "string \<Rightarrow> error" where
  "unrecognized_target tgt =
     RuntimeError (''Unrecognized target '' @ apos @ tgt @ apos @ '' in evaluation spec.'')"

text \<open>
  \<open>resolve_target\<close> is the \<open>if\<close>/\<open>elif\<close> chain of \<open>get_evaluation_args\<close>, which fills
  \<open>ret\<close> with the binary and its prefix arguments; \<open>get_evaluation_args\<close> then extends
  \<open>ret\<close> with the arguments the spec contributes.
\<close>

definition resolve_target :: "string \<Rightarrow> config \<Rightarrow> error + string list" where
  "resolve_target tgt cfg =
     (if tgt = ''localhost'' then
        (if oscap_path cfg = [] then Inl (tool_not_found tgt ''oscap'')
         else Inr [oscap_path cfg])
      else if startswith tgt ''ssh://'' then
        (if oscap_ssh_path cfg = [] then Inl (tool_not_found tgt ''oscap-ssh'')
         else (case split_ssh_target tgt of
                 Inl e \<Rightarrow> Inl e
               | Inr (host, port) \<Rightarrow> Inr [oscap_ssh_path cfg, host, str_int port]))
      else if startswith tgt ''ssh+sudo://'' then
        (if oscap_ssh_path cfg = [] then Inl (tool_not_found tgt ''oscap-ssh'')
         else (case split_ssh_target tgt of
                 Inl e \<Rightarrow> Inl e
               | Inr (host, port) \<Rightarrow> Inr [oscap_ssh_path cfg, ''--sudo'', host, str_int port]))
      else if startswith tgt ''docker-image://'' then
        (if oscap_ssh_path cfg = [] then Inl (tool_not_found tgt ''oscap-docker'')
         else (let image_name = drop (length ''docker-image://'') tgt
               in Inr [oscap_docker_path cfg, ''image'', image_name]))
      else if startswith tgt ''docker-container://'' then
        (if oscap_ssh_path cfg = [] then Inl (tool_not_found tgt ''oscap-docker'')
         else (let container_name = drop (length ''docker-container://'') tgt
               in Inr [oscap_docker_path cfg, ''container'', container_name]))
      else if startswith tgt ''vm-domain://'' then
        (if oscap_vm_path cfg = [] then Inl (tool_not_found tgt ''oscap-vm'')
         else (let domain_name = drop (length ''vm-domain://'') tgt
               in Inr [oscap_vm_path cfg, ''domain'', domain_name]))
      else if startswith tgt ''vm-image://'' then
        (if oscap_vm_path cfg = [] then Inl (tool_not_found tgt ''oscap-vm'')
         else (let storage_name = drop (length ''vm-image://'') tgt
               in Inr [oscap_vm_path cfg, ''image'', storage_name]))
      else if startswith tgt ''chroot://'' then
        (if oscap_chroot_path cfg = [] then Inl (tool_not_found tgt ''oscap-chroot'')
         else (let path = drop (length ''chroot://'') tgt
               in Inr [oscap_chroot_path cfg, path]))
      else Inl (unrecognized_target tgt))"

definition get_evaluation_args :: "evaluation_spec \<Rightarrow> config \<Rightarrow> error + string list" where
  "get_evaluation_args spec cfg =
     (case resolve_target (target spec) cfg of
        Inl e \<Rightarrow> Inl e
      | Inr ret \<Rightarrow>
          (case get_oscap_arguments spec cfg of
             Inl e \<Rightarrow> Inl e
           | Inr extra \<Rightarrow> Inr (ret @ extra)))"

section \<open>Running an evaluation\<close>

text \<open>
  The part of the outside world \<open>evaluate\<close> acts on. \<open>dirs\<close> are the directories that
  exist; \<open>entries d\<close> maps the names of the regular files in directory \<open>d\<close> to their
  text, so the file \<open>os.path.join(d, n)\<close> is entry \<open>n\<close> of \<open>d\<close>; \<open>blocked d n\<close> says that
  creating or opening \<open>n\<close> in \<open>d\<close> for writing is refused (permissions, a full disk, a
  directory of that name); \<open>names\<close> are the names the temporary-name generator yields
  next.
\<close>

record world =
  dirs :: "string list"
  entries :: "string \<Rightarrow> string \<rightharpoonup> string"
  blocked :: "string \<Rightarrow> string \<Rightarrow> bool"
  names :: "string list"

text \<open>\<open>os.path.join(a, b)\<close> for a relative \<open>b\<close>.\<close>

definition path_join :: "string \<Rightarrow> string \<Rightarrow> string" where
  "path_join a b =
     (if a = [] then b else if last a = CHR ''/'' then a @ b else a @ ''/'' @ b)"

text \<open>
  \<open>tempfile.mkdtemp(prefix="", suffix="", dir=d)\<close>: each candidate name is tried with
  \<open>os.mkdir\<close>; a name that exists already is skipped, any other failure is raised, and
  when the candidates run out \<open>FileExistsError\<close> (an \<open>OSError\<close>) is raised. The new
  directory is empty.
\<close>

fun mkdtemp_names :: "string \<Rightarrow> string list \<Rightarrow> world \<Rightarrow> error + (string \<times> world)" where
  "mkdtemp_names d [] w = Inl OSError"
| "mkdtemp_names d (name # rest) w =
     (let file = path_join d name
      in if file \<in> set (dirs w) \<or> entries w d name \<noteq> None then mkdtemp_names d rest w
         else if d \<notin> set (dirs w) \<or> blocked w d name then Inl OSError
         else Inr (file, w\<lparr>dirs := file # dirs w,
                            entries := (entries w)(file := Map.empty),
                            names := rest\<rparr>))"

definition mkdtemp :: "string \<Rightarrow> world \<Rightarrow> error + (string \<times> world)" where
  "mkdtemp d w = mkdtemp_names d (names w) w"

text \<open>
  \<open>io.open(os.path.join(d, n), "w", encoding="utf-8")\<close> creates or truncates the file;
  \<open>write_text\<close> is the \<open>with\<close> block that opens the file, writes one text and closes it.
\<close>

definition io_open_w :: "string \<Rightarrow> string \<Rightarrow> world \<Rightarrow> error + world" where
  "io_open_w d n w =
     (if d \<in> set (dirs w) \<and> \<not> blocked w d n
      then Inr (w\<lparr>entries := (entries w)(d := (entries w d)(n \<mapsto> []))\<rparr>)
      else Inl IOError)"

definition write_text :: "string \<Rightarrow> string \<Rightarrow> string \<Rightarrow> world \<Rightarrow> error + world" where
  "write_text d n txt w =
     (case io_open_w d n w of
        Inl e \<Rightarrow> Inl e
      | Inr w' \<Rightarrow> Inr (w'\<lparr>entries := (entries w')(d := (entries w' d)(n \<mapsto> txt))\<rparr>))"

text \<open>
  \<open>subprocess.call(args, cwd=d, stdout=..., stderr=..., shell=False)\<close> is the outside
  world's: it returns the exit code of the child or raises, and the child may have changed
  the world in any way (its output goes to the two open files).
\<close>

type_synonym subprocess_call = "string list \<Rightarrow> string \<Rightarrow> world \<Rightarrow> (error + int) \<times> world"

definition invalid_spec :: error where
  "invalid_spec = RuntimeError (''Can'' @ apos @ ''t evaluate an invalid EvaluationSpec.'')"

text \<open>
  \<open>evaluate\<close> returns the working directory or the exception, and the world it leaves.
  The bare \<open>except\<close> around the call keeps \<open>exit_code = 1\<close> when the call raises. Logging
  is left out: the chain of \<open>if\<close>/\<open>elif\<close> on the exit code after the write only logs.
\<close>

definition evaluate ::
  "subprocess_call \<Rightarrow> evaluation_spec \<Rightarrow> config \<Rightarrow> world \<Rightarrow> (error + string) \<times> world" where
  "evaluate call spec cfg w =
     (if \<not> is_valid spec then (Inl invalid_spec, w)
      else
        (case mkdtemp (work_in_progress_dir cfg) w of
           Inl e \<Rightarrow> (Inl e, w)
         | Inr (working_directory, w1) \<Rightarrow>
        (case io_open_w working_directory ''stdout'' w1 of
           Inl e \<Rightarrow> (Inl e, w1)
         | Inr w2 \<Rightarrow>
        (case io_open_w working_directory ''stderr'' w2 of
           Inl e \<Rightarrow> (Inl e, w2)
         | Inr w3 \<Rightarrow>
        (case get_evaluation_args spec cfg of
           Inl e \<Rightarrow> (Inl e, w3)
         | Inr args \<Rightarrow>
        (case call args working_directory w3 of
           (r, w4) \<Rightarrow>
             (let exit_code = (case r of Inl e \<Rightarrow> 1 | Inr c \<Rightarrow> c)
              in (case write_text working_directory ''exit_code'' (str_int exit_code) w4 of
                    Inl e \<Rightarrow> (Inl e, w4)
                  | Inr w5 \<Rightarrow> (Inr working_directory, w5)))))))))"

section \<open>XML documents, the file system and captured child processes\<close>

text \<open>
  An element of \<open>xml.etree.ElementTree\<close>: tag, attributes, text, children. The module
  reads \<open>attrib[k]\<close> (a \<open>KeyError\<close> when \<open>k\<close> is missing) and \<open>get(k)\<close> (\<open>None\<close> when \<open>k\<close> is
  missing).
\<close>

datatype element =
  Element (tag: string) (attrib: "(string \<times> string) list") (etext: "string option")
          (children: "element list")

definition attrib_at :: "element \<Rightarrow> string \<Rightarrow> error + string" where
  "attrib_at x k = (case map_of (attrib x) k of None \<Rightarrow> Inl KeyError | Some v \<Rightarrow> Inr v)"

definition elem_get :: "element \<Rightarrow> string \<Rightarrow> string option" where
  "elem_get x k = map_of (attrib x) k"

text \<open>
  What the module calls outside itself, taken as given:
  \<^item> \<open>parse p\<close>: \<open>ElementTree.parse(p)\<close>, the root of the document at path \<open>p\<close>, or
    \<open>IOError\<close> or \<open>ParseError\<close>;
  \<^item> \<open>findall t path\<close>: \<open>t.findall(path)\<close>, with the path the module formats;
  \<^item> \<open>find_elem t path ns\<close>: \<open>t.find(path, ns)\<close>;
  \<^item> \<open>get_element_text e name default\<close>: \<open>et_helpers.get_element_text\<close>, of this
    repository, whose source is not part of the module;
  \<^item> \<open>path_exists p\<close>: \<open>os.path.exists(p)\<close>;
  \<^item> \<open>subprocess_check_output args\<close>: \<open>subprocess_check_output(args).decode("utf-8")\<close>,
    the decoded output of the child run with \<open>args\<close>, or the exception raised when it
    cannot be started, exits with a non-zero code, or prints text that does not decode.
\<close>

record env =
  parse :: "string \<Rightarrow> error + element"
  findall :: "element \<Rightarrow> string \<Rightarrow> error + element list"
  find_elem :: "element \<Rightarrow> string \<Rightarrow> (string \<times> string) list \<Rightarrow> error + element option"
  get_element_text :: "element \<Rightarrow> string \<Rightarrow> string \<Rightarrow> string"
  path_exists :: "string \<Rightarrow> bool"
  subprocess_check_output :: "string list \<Rightarrow> error + string"

section \<open>Profile choices\<close>

text \<open>
  A Python dictionary keeps its keys in insertion order, and an assignment to a key that
  is present replaces the value in place: an association list under \<open>AList.update\<close>. A
  key is what \<open>elem.get("id")\<close> returns, so \<open>None\<close> is a possible key.
\<close>

type_synonym profile_map = "(string option \<times> string) list"

definition xlink_href :: string where
  "xlink_href = ''{http://www.w3.org/1999/xlink}href''"

definition component_ref_path :: "string option \<Rightarrow> string \<Rightarrow> string" where
  "component_ref_path xccdf_id xccdf_ns =
     (case xccdf_id of
        None \<Rightarrow> ''.//{'' @ xccdf_ns @ ''}checklists/{'' @ xccdf_ns @ ''}component-ref[1]''
      | Some i \<Rightarrow> ''.//{'' @ xccdf_ns @ ''}checklists/{'' @ xccdf_ns @
                  ''}component-ref/[@id='' @ apos @ i @ apos @ '']'')"

definition profile_path :: "string \<Rightarrow> string \<Rightarrow> string \<Rightarrow> string" where
  "profile_path xccdf_ns c profile_ns =
     ''.//{'' @ xccdf_ns @ ''}component/[@id='' @ apos @ c @ apos @ '']//{'' @ profile_ns @
     ''}Profile''"

text \<open>The inner loop of \<open>scrape_profiles\<close>: \<open>dest[id_] = title\<close> for each profile found (\<open>ident\<close> is the source's \<open>id_\<close>).\<close>

fun scrape_elems :: "env \<Rightarrow> string \<Rightarrow> element list \<Rightarrow> profile_map \<Rightarrow> profile_map" where
  "scrape_elems ev profile_ns [] dest = dest"
| "scrape_elems ev profile_ns (elem # elems) dest =
     (let ident = elem_get elem ''id'';
          title = get_element_text ev elem (''{'' @ profile_ns @ ''}title'') []
      in scrape_elems ev profile_ns elems (AList.update ident title dest))"

text \<open>The outer loop: one component reference after the other.\<close>

fun scrape_refs ::
  "env \<Rightarrow> element \<Rightarrow> string \<Rightarrow> string \<Rightarrow> element list \<Rightarrow> profile_map \<Rightarrow> error + profile_map" where
  "scrape_refs ev tree xccdf_ns profile_ns [] dest = Inr dest"
| "scrape_refs ev tree xccdf_ns profile_ns (x # xs) dest =
     (case attrib_at x xlink_href of
        Inl e \<Rightarrow> Inl e
      | Inr c0 \<Rightarrow>
          (let c = drop 1 c0
           in (case findall ev tree (profile_path xccdf_ns c profile_ns) of
                 Inl e \<Rightarrow> Inl e
               | Inr elems \<Rightarrow>
                   scrape_refs ev tree xccdf_ns profile_ns xs
                     (scrape_elems ev profile_ns elems dest))))"

definition scrape_profiles ::
  "env \<Rightarrow> element \<Rightarrow> string option \<Rightarrow> string \<Rightarrow> string \<Rightarrow> profile_map \<Rightarrow> error + profile_map" where
  "scrape_profiles ev tree xccdf_id xccdf_ns profile_ns dest =
     (case findall ev tree (component_ref_path xccdf_id xccdf_ns) of
        Inl e \<Rightarrow> Inl e
      | Inr xccdfs \<Rightarrow> scrape_refs ev tree xccdf_ns profile_ns xccdfs dest)"

text \<open>
  The two calls the module makes on one tree, first with the 1.1 namespaces and then with
  the 1.2 namespaces.
\<close>

definition scrape_both ::
  "env \<Rightarrow> element \<Rightarrow> string option \<Rightarrow> profile_map \<Rightarrow> error + profile_map" where
  "scrape_both ev tree xccdf_id dest =
     (case scrape_profiles ev tree xccdf_id
             ''http://scap.nist.gov/schema/scap/source/1.1''
             ''http://checklists.nist.gov/xccdf/1.1'' dest of
        Inl e \<Rightarrow> Inl e
      | Inr dest1 \<Rightarrow>
          scrape_profiles ev tree xccdf_id
            ''http://scap.nist.gov/schema/scap/source/1.2''
            ''http://checklists.nist.gov/xccdf/1.2'' dest1)"

text \<open>\<open>if tailoring_file:\<close> holds for a string that is not empty, and not for \<open>None\<close>.\<close>

definition truthy :: "string option \<Rightarrow> bool" where
  "truthy s = (case s of None \<Rightarrow> False | Some t \<Rightarrow> t \<noteq> [])"

text \<open>
  The two \<open>except\<close> clauses around the parse of the input file return \<open>ret\<close>, which is
  still the empty dictionary there; any other exception is not caught. The parse of the
  tailoring file is not inside a \<open>try\<close>.
\<close>

definition get_profile_choices_for_input ::
  "env \<Rightarrow> string \<Rightarrow> string option \<Rightarrow> string option \<Rightarrow> error + profile_map" where
  "get_profile_choices_for_input ev input_file tailoring_file xccdf_id =
     (let ret = []
      in (case parse ev input_file of
            Inl IOError \<Rightarrow> Inr ret
          | Inl ParseError \<Rightarrow> Inr ret
          | Inl e \<Rightarrow> Inl e
          | Inr input_tree \<Rightarrow>
              (case scrape_both ev input_tree xccdf_id ret of
                 Inl e \<Rightarrow> Inl e
               | Inr ret1 \<Rightarrow>
                   (case (if truthy tailoring_file
                          then (case parse ev (the tailoring_file) of
                                  Inl e \<Rightarrow> Inl e
                                | Inr tailoring_tree \<Rightarrow>
                                    scrape_both ev tailoring_tree None ret1)
                          else Inr ret1) of
                      Inl e \<Rightarrow> Inl e
                    | Inr ret2 \<Rightarrow> Inr (AList.update (Some []) ''(default)'' ret2)))))"

section \<open>Generating a fix for a result\<close>

definition fix_templates :: "(string \<times> string) list" where
  "fix_templates =
     [(''bash'', ''urn:xccdf:fix:script:sh''),
      (''ansible'', ''urn:xccdf:fix:script:ansible''),
      (''puppet'', ''urn:xccdf:fix:script:puppet'')]"

text \<open>\<open>_fix_type_to_template\<close>: the subscript raises \<open>KeyError\<close> on any other token.\<close>

definition fix_type_to_template :: "string \<Rightarrow> error + string" where
  "fix_type_to_template fix_type =
     (case map_of fix_templates fix_type of None \<Rightarrow> Inl KeyError | Some t \<Rightarrow> Inr t)"

definition no_results :: "string \<Rightarrow> error" where
  "no_results results_path =
     RuntimeError (''Results XML '' @ apos @ results_path @ apos @ '' doesn'' @ apos @
                   ''t contain any results.'')"

text \<open>\<open>_get_result_id\<close>.\<close>

definition get_result_id :: "env \<Rightarrow> string \<Rightarrow> error + string" where
  "get_result_id ev results_path =
     (case parse ev results_path of
        Inl e \<Rightarrow> Inl e
      | Inr root \<Rightarrow>
          (let ns = [(''xccdf'', ''http://checklists.nist.gov/xccdf/1.2'')]
           in (case find_elem ev root ''.//xccdf:TestResult'' ns of
                 Inl e \<Rightarrow> Inl e
               | Inr None \<Rightarrow> Inl (no_results results_path)
               | Inr (Some test_result) \<Rightarrow> attrib_at test_result ''id'')))"

definition results_missing :: "string \<Rightarrow> error" where
  "results_missing results_path =
     RuntimeError (''Can'' @ apos @ ''t generate fix for scan result. Expected '' @
                   ''results XML at '' @ apos @ results_path @ apos @
                   '' but the file doesn'' @ apos @ ''t exist.'')"

definition generate_fix_for_result ::
  "env \<Rightarrow> config \<Rightarrow> string \<Rightarrow> string \<Rightarrow> string option \<Rightarrow> error + string" where
  "generate_fix_for_result ev cfg results_path fix_type xccdf_id =
     (if \<not> path_exists ev results_path then Inl (results_missing results_path)
      else
        (case get_result_id ev results_path of
           Inl e \<Rightarrow> Inl e
         | Inr result_id \<Rightarrow>
             (case fix_type_to_template fix_type of
                Inl e \<Rightarrow> Inl e
              | Inr template \<Rightarrow>
                  (let args = [oscap_path cfg, ''xccdf'', ''generate'', ''fix'',
                               ''--result-id'', result_id,
                               ''--template'', template];
                       args = (case xccdf_id of
                                 None \<Rightarrow> args
                               | Some i \<Rightarrow> args @ [''--xccdf-id'', i]);
                       args = args @ [results_path]
                   in subprocess_check_output ev args))))"

section \<open>EvaluationMode\<close>

text \<open>
  The class holds integer constants; \<open>to_string\<close> takes any value and \<open>from_string\<close> any
  string, so both are total functions with a fall-through branch.
\<close>

definition UNKNOWN :: int where "UNKNOWN = - 1"
definition SOURCE_DATASTREAM :: int where "SOURCE_DATASTREAM = 1"
definition OVAL :: int where "OVAL = 2"
definition CVE_SCAN :: int where "CVE_SCAN = 3"
definition STANDARD_SCAN :: int where "STANDARD_SCAN = 4"

definition to_string :: "int \<Rightarrow> string" where
  "to_string v =
     (if v = SOURCE_DATASTREAM then ''sds''
      else if v = OVAL then ''oval''
      else if v = CVE_SCAN then ''cve_scan''
      else if v = STANDARD_SCAN then ''standard_scan''
      else ''unknown'')"

definition from_string :: "string \<Rightarrow> int" where
  "from_string v =
     (if v = ''sds'' then SOURCE_DATASTREAM
      else if v = ''oval'' then OVAL
      else if v = ''cve_scan'' then CVE_SCAN
      else if v = ''standard_scan'' then STANDARD_SCAN
      else UNKNOWN)"

section \<open>Exit status\<close>

definition get_status_from_exit_code :: "int \<Rightarrow> string" where
  "get_status_from_exit_code exit_code =
     (let status = ''Unknown (exit_code = '' @ str_int exit_code @ '')''
      in if exit_code = 0 then ''Compliant''
         else if exit_code = 1 then ''Evaluation Error''
         else if exit_code = 2 then ''Non-Compliant''
         else status)"

section \<open>Host and port as the specification words them\<close>

text \<open>
  The remainder of an ssh target after its scheme prefix, and a string split once at its
  first separator (\<open>s.split(sep, 1)\<close> when \<open>sep\<close> occurs in \<open>s\<close>). The module itself
  splits at every colon and unpacks two parts; these two definitions state what the
  specification says, to compare \<open>split_ssh_target\<close> with.
\<close>

definition ssh_remainder :: "string \<Rightarrow> string" where
  "ssh_remainder tgt = (if startswith tgt ''ssh+sudo://'' then drop 11 tgt else drop 6 tgt)"

definition split_once :: "char \<Rightarrow> string \<Rightarrow> string \<times> string" where
  "split_once sep s = (takeWhile (\<lambda>c. c \<noteq> sep) s, tl (dropWhile (\<lambda>c. c \<noteq> sep) s))"

section \<open>Concrete inputs\<close>

definition example_config :: config where
  "example_config =
     \<lparr>oscap_path = ''/usr/bin/oscap'',
      oscap_ssh_path = ''/usr/bin/oscap-ssh'',
      oscap_docker_path = ''/usr/bin/oscap-docker'',
      oscap_vm_path = ''/usr/bin/oscap-vm'',
      oscap_chroot_path = ''/usr/bin/oscap-chroot'',
      work_in_progress_dir = ''/var/lib/oscapd/work_in_progress''\<rparr>"

definition example_spec :: "string \<Rightarrow> evaluation_spec" where
  "example_spec tgt =
     \<lparr>mode = SOURCE_DATASTREAM, target = tgt, is_valid = True,
      get_oscap_arguments = (\<lambda>cfg. Inr [''xccdf'', ''eval'', ''/content/ssg-ds.xml''])\<rparr>"

text \<open>
  A world with the work-in-progress directory and one candidate name, the worlds after the
  run directory is made and after each of its two files is opened, the world a child
  leaves that printed to its standard output, a child that exits with a given code, and a
  child that cannot be started.
\<close>

definition example_world :: world where
  "example_world =
     \<lparr>dirs = [''/var/lib/oscapd/work_in_progress''],
      entries = (\<lambda>d. Map.empty),
      blocked = (\<lambda>d n. False),
      names = [''k3x9'']\<rparr>"

definition run_dir :: string where
  "run_dir = ''/var/lib/oscapd/work_in_progress/k3x9''"

definition world_dir :: world where
  "world_dir =
     example_world\<lparr>dirs := run_dir # dirs example_world,
                   entries := (entries example_world)(run_dir := Map.empty),
                   names := []\<rparr>"

definition world_out :: world where
  "world_out =
     world_dir\<lparr>entries := (entries world_dir)(run_dir := (entries world_dir run_dir)(''stdout'' \<mapsto> []))\<rparr>"

definition world_err :: world where
  "world_err =
     world_out\<lparr>entries := (entries world_out)(run_dir := (entries world_out run_dir)(''stderr'' \<mapsto> []))\<rparr>"

definition world_ran :: world where
  "world_ran =
     world_err\<lparr>entries := (entries world_err)(run_dir := (entries world_err run_dir)(''stdout'' \<mapsto> ''scanning''))\<rparr>"

definition call_exit :: "int \<Rightarrow> subprocess_call" where
  "call_exit c args cwd w =
     (Inr c, w\<lparr>entries := (entries w)(cwd := (entries w cwd)(''stdout'' \<mapsto> ''scanning''))\<rparr>)"

definition call_fails :: subprocess_call where
  "call_fails args cwd w = (Inl OSError, w)"

text \<open>
  A source datastream with one checklist that holds the profiles \<open>p1\<close> and \<open>p2\<close>, a
  results document with one \<open>TestResult\<close> and one without, and an outside world that
  serves them: \<open>findall\<close> and \<open>find_elem\<close> answer the paths the module formats for these
  documents, \<open>get_element_text\<close> is the text of the first child of that name, and the
  captured child echoes its argument vector.
\<close>

definition ns_ds12 :: string where "ns_ds12 = ''http://scap.nist.gov/schema/scap/source/1.2''"
definition ns_xccdf12 :: string where "ns_xccdf12 = ''http://checklists.nist.gov/xccdf/1.2''"

definition profile_elem :: "string \<Rightarrow> string \<Rightarrow> element" where
  "profile_elem i title =
     Element (''{'' @ ns_xccdf12 @ ''}Profile'') [(''id'', i)] None
       [Element (''{'' @ ns_xccdf12 @ ''}title'') [] (Some title) []]"

definition ref_elem :: element where
  "ref_elem =
     Element (''{'' @ ns_ds12 @ ''}component-ref'') [(''id'', ''r1''), (xlink_href, ''#c1'')] None []"

definition content_tree :: element where
  "content_tree =
     Element (''{'' @ ns_ds12 @ ''}data-stream-collection'') [] None
       [Element (''{'' @ ns_ds12 @ ''}data-stream'') [] None
          [Element (''{'' @ ns_ds12 @ ''}checklists'') [] None [ref_elem]],
        Element (''{'' @ ns_ds12 @ ''}component'') [(''id'', ''c1'')] None
          [Element (''{'' @ ns_xccdf12 @ ''}Benchmark'') [] None
             [profile_elem ''p1'' ''Title A'', profile_elem ''p2'' ''Title B'']]]"

definition results_tree :: element where
  "results_tree =
     Element (''{'' @ ns_xccdf12 @ ''}Benchmark'') [] None
       [Element (''{'' @ ns_xccdf12 @ ''}TestResult'') [(''id'', ''xccdf_org.open-scap_testresult_1'')]
          None []]"

definition empty_results_tree :: element where
  "empty_results_tree = Element (''{'' @ ns_xccdf12 @ ''}Benchmark'') [] None []"

definition child_text :: "element \<Rightarrow> string \<Rightarrow> string \<Rightarrow> string" where
  "child_text e name dflt =
     (case filter (\<lambda>c. tag c = name) (children e) of
        [] \<Rightarrow> dflt
      | c # cs \<Rightarrow> (case etext c of None \<Rightarrow> dflt | Some t \<Rightarrow> t))"

definition example_env :: env where
  "example_env =
     \<lparr>parse = (\<lambda>p. if p = ''/content/ssg-ds.xml'' then Inr content_tree
                     else if p = ''/results/1/results.xml'' then Inr results_tree
                     else if p = ''/results/2/results.xml'' then Inr empty_results_tree
                     else if p = ''/content/broken.xml'' then Inl ParseError
                     else Inl IOError),
      findall = (\<lambda>t path.
                   if t = content_tree \<and> path = component_ref_path None ns_ds12
                   then Inr [ref_elem]
                   else if t = content_tree \<and> path = profile_path ns_ds12 ''c1'' ns_xccdf12
                   then Inr [profile_elem ''p1'' ''Title A'', profile_elem ''p2'' ''Title B'']
                   else Inr []),
      find_elem = (\<lambda>t path ns.
                   if t = results_tree \<and> path = ''.//xccdf:TestResult''
                   then Inr (Some (hd (children results_tree)))
                   else Inr None),
      get_element_text = child_text,
      path_exists = (\<lambda>p. p \<in> {''/content/ssg-ds.xml'', ''/content/broken.xml'',
                                 ''/results/1/results.xml'', ''/results/2/results.xml''}),
      subprocess_check_output = (\<lambda>args. Inr (concat (map (\<lambda>a. a @ ''; '') args)))\<rparr>"

section \<open>Decimal text and \<open>int()\<close> agree\<close>

declare digits.simps [simp del]

lemma of_char_digit_char: "d < 10 \<Longrightarrow> (of_char (digit_char d) :: nat) = 48 + d"
  by (simp add: digit_char_def)

lemma is_digit_digit_char: "d < 10 \<Longrightarrow> is_digit (digit_char d)"
  by (simp add: is_digit_def of_char_digit_char)

lemma digit_val_digit_char: "d < 10 \<Longrightarrow> digit_val (digit_char d) = d"
  by (simp add: digit_val_def of_char_digit_char)

lemma is_digit_not_space: "is_digit c \<Longrightarrow> \<not> is_space c"
  by (auto simp: is_digit_def is_space_def Let_def)

lemma is_digit_not_special:
  "is_digit c \<Longrightarrow> c \<noteq> CHR ''_'' \<and> c \<noteq> CHR ''-'' \<and> c \<noteq> CHR ''+'' \<and> c \<noteq> CHR '':''"
  by (auto simp: is_digit_def)

lemma digits_all_digit: "\<forall>c \<in> set (digits n). is_digit c"
proof (induction n rule: digits.induct)
  case (1 n)
  show ?case
  proof (cases "n < 10")
    case True
    then show ?thesis by (simp add: digits.simps [of n] is_digit_digit_char)
  next
    case False
    with 1 show ?thesis by (simp add: digits.simps [of n] is_digit_digit_char)
  qed
qed

lemma digits_nonempty: "digits n \<noteq> []"
  by (subst digits.simps) simp

lemma digits_val_snoc: "digits_val (xs @ [c]) = 10 * digits_val xs + digit_val c"
  by (simp add: digits_val_def)

lemma digits_val_digits: "digits_val (digits n) = n"
proof (induction n rule: digits.induct)
  case (1 n)
  show ?case
  proof (cases "n < 10")
    case True
    then show ?thesis by (simp add: digits.simps [of n] digits_val_def digit_val_digit_char)
  next
    case False
    with 1 show ?thesis
      by (simp add: digits.simps [of n] digits_val_snoc digit_val_digit_char)
  qed
qed

lemma wf_rest_all_digit: "\<forall>c \<in> set s. is_digit c \<Longrightarrow> wf_rest s"
  by (induction s rule: wf_rest.induct) (auto dest: is_digit_not_special)

lemma wf_digits_all_digit: "s \<noteq> [] \<Longrightarrow> \<forall>c \<in> set s. is_digit c \<Longrightarrow> wf_digits s"
  by (cases s) (auto intro: wf_rest_all_digit)

lemma filter_underscore_all_digit:
  "\<forall>c \<in> set s. is_digit c \<Longrightarrow> filter (\<lambda>x. x \<noteq> CHR ''_'') s = s"
  by (induction s) (auto dest: is_digit_not_special)

lemma strip_id: "s \<noteq> [] \<Longrightarrow> \<not> is_space (hd s) \<Longrightarrow> \<not> is_space (last s) \<Longrightarrow> strip s = s"
proof -
  assume a: "s \<noteq> []" "\<not> is_space (hd s)" "\<not> is_space (last s)"
  then have "dropWhile is_space s = s" by (cases s) auto
  moreover from a have "dropWhile is_space (rev s) = rev s"
    by (cases "rev s") (auto simp: last_rev [symmetric] hd_rev)
  ultimately show ?thesis by (simp add: strip_def)
qed


lemma py_int_body:
  assumes "\<forall>c \<in> set b. is_digit c" "b \<noteq> []"
  shows "wf_digits b" "filter (\<lambda>x. x \<noteq> CHR ''_'') b = b"
  using assms by (simp_all add: wf_digits_all_digit filter_underscore_all_digit)

lemma py_int_digits: "py_int (digits n) = Some (int n)"
proof -
  obtain c cs where eq: "digits n = c # cs"
    using digits_nonempty [of n] by (cases "digits n") auto
  have all: "\<forall>c \<in> set (c # cs). is_digit c"
    using digits_all_digit [of n] by (simp only: eq)
  have c: "is_digit c" using all by simp
  have "\<not> is_space (hd (c # cs))" using c by (simp add: is_digit_not_space)
  moreover have "\<not> is_space (last (c # cs))"
    using all by (metis is_digit_not_space last_in_set list.distinct(1))
  ultimately have st: "strip (c # cs) = c # cs" by (intro strip_id) simp_all
  have sgn: "c \<noteq> CHR ''-''" "c \<noteq> CHR ''+''" using is_digit_not_special [OF c] by simp_all
  have wf: "wf_digits (c # cs)" and flt: "filter (\<lambda>x. x \<noteq> CHR ''_'') (c # cs) = c # cs"
    using py_int_body [OF all] by simp_all
  have dv: "digits_val (c # cs) = n" using digits_val_digits [of n] by (simp only: eq)
  have "py_int (c # cs) = Some (int n)"
    unfolding py_int_def st using sgn wf flt dv by (simp only: list.case Let_def if_False if_True simp_thms)
  then show ?thesis by (simp only: eq)
qed

lemma py_int_minus_digits: "0 < n \<Longrightarrow> py_int (CHR ''-'' # digits n) = Some (- int n)"
proof -
  let ?b = "digits n"
  have all: "\<forall>c \<in> set ?b. is_digit c" by (rule digits_all_digit)
  have ne: "?b \<noteq> []" by (rule digits_nonempty)
  have "\<not> is_space (hd (CHR ''-'' # ?b))" by (simp add: is_space_def)
  moreover have "\<not> is_space (last (CHR ''-'' # ?b))"
    using all ne by (simp add: is_digit_not_space)
  ultimately have st: "strip (CHR ''-'' # ?b) = CHR ''-'' # ?b" by (intro strip_id) simp_all
  have wf: "wf_digits ?b" and flt: "filter (\<lambda>x. x \<noteq> CHR ''_'') ?b = ?b"
    using py_int_body [OF all ne] by simp_all
  show ?thesis
    unfolding py_int_def st using wf flt digits_val_digits [of n]
    by (simp only: list.case Let_def if_True simp_thms)
qed

lemma py_int_str_int: "py_int (str_int i) = Some i"
proof (cases "i < 0")
  case False
  then show ?thesis by (simp add: str_int_def py_int_digits)
next
  case True
  then have "0 < nat (- i)" by simp
  from py_int_minus_digits [OF this] True show ?thesis by (simp add: str_int_def)
qed

section \<open>EvaluationMode and its strings\<close>

text \<open>
  Claim C6, as stated: \<open>''unknown''\<close>, which \<open>to_string\<close> returns for \<open>UNKNOWN\<close>, is never
  accepted as round-trip input. It is: \<open>from_string\<close> has no branch for it, and its
  fall-through branch returns \<open>UNKNOWN\<close>, so \<open>UNKNOWN\<close> comes back from its string and
  \<open>''unknown''\<close> comes back from its value.
\<close>

theorem unknown_round_trips_counterexample:
  "from_string (to_string UNKNOWN) = UNKNOWN \<and> to_string (from_string ''unknown'') = ''unknown''"
  by (simp add: from_string_def to_string_def UNKNOWN_def SOURCE_DATASTREAM_def OVAL_def
        CVE_SCAN_def STANDARD_SCAN_def)

text \<open>
  Claim C6, amended. Each of the four known modes comes back from
  \<open>from_string (to_string m)\<close>; every string other than the four tokens is mapped to
  \<open>UNKNOWN\<close>; \<open>to_string\<close> maps \<open>UNKNOWN\<close>, like every value that is not a known mode, to
  \<open>''unknown''\<close>, and \<open>from_string\<close> maps \<open>''unknown''\<close> through its fall-through branch
  back to \<open>UNKNOWN\<close>. So \<open>UNKNOWN\<close> round-trips as well, in both directions, and a value
  that is neither a known mode nor \<open>UNKNOWN\<close> comes back as \<open>UNKNOWN\<close>.
\<close>

theorem evaluation_mode_round_trip:
  "(m \<in> {SOURCE_DATASTREAM, OVAL, CVE_SCAN, STANDARD_SCAN} \<longrightarrow> from_string (to_string m) = m) \<and>
   (s \<notin> {''sds'', ''oval'', ''cve_scan'', ''standard_scan''} \<longrightarrow> from_string s = UNKNOWN) \<and>
   to_string UNKNOWN = ''unknown'' \<and>
   from_string ''unknown'' = UNKNOWN \<and>
   from_string (to_string UNKNOWN) = UNKNOWN \<and>
   to_string (from_string ''unknown'') = ''unknown'' \<and>
   (v \<notin> {SOURCE_DATASTREAM, OVAL, CVE_SCAN, STANDARD_SCAN} \<longrightarrow>
      to_string v = ''unknown'' \<and> from_string (to_string v) = UNKNOWN)"
  by (auto simp: from_string_def to_string_def UNKNOWN_def SOURCE_DATASTREAM_def OVAL_def
        CVE_SCAN_def STANDARD_SCAN_def)

theorem evaluation_mode_round_trip_witness:
  "OVAL \<in> {SOURCE_DATASTREAM, OVAL, CVE_SCAN, STANDARD_SCAN} \<and>
   from_string (to_string OVAL) = OVAL \<and>
   ''xccdf'' \<notin> {''sds'', ''oval'', ''cve_scan'', ''standard_scan''} \<and>
   from_string ''xccdf'' = UNKNOWN \<and>
   (7::int) \<notin> {SOURCE_DATASTREAM, OVAL, CVE_SCAN, STANDARD_SCAN} \<and>
   to_string 7 = ''unknown'' \<and> from_string (to_string 7) = UNKNOWN"
proof -
  have k: "(7::int) \<notin> {SOURCE_DATASTREAM, OVAL, CVE_SCAN, STANDARD_SCAN}"
    "OVAL \<in> {SOURCE_DATASTREAM, OVAL, CVE_SCAN, STANDARD_SCAN}"
    by (simp_all add: SOURCE_DATASTREAM_def OVAL_def CVE_SCAN_def STANDARD_SCAN_def)
  show ?thesis
    using evaluation_mode_round_trip [of OVAL "''xccdf''" 7] k by simp
qed

section \<open>Status of an exit code\<close>

text \<open>
  Claim C7. \<open>get_status_from_exit_code\<close> maps 0 to Compliant, 2 to Non-Compliant, 1 to
  Evaluation Error, and every other integer \<open>c\<close> to the text \<open>Unknown (exit_code = c)\<close>,
  where \<open>c\<close> is written in decimal: reading that text back with \<open>int()\<close> gives \<open>c\<close>.
\<close>

theorem status_from_exit_code:
  "get_status_from_exit_code 0 = ''Compliant'' \<and>
   get_status_from_exit_code 2 = ''Non-Compliant'' \<and>
   get_status_from_exit_code 1 = ''Evaluation Error'' \<and>
   (c \<notin> {0, 1, 2} \<longrightarrow>
      get_status_from_exit_code c = ''Unknown (exit_code = '' @ str_int c @ '')'' \<and>
      py_int (str_int c) = Some c)"
  by (simp add: get_status_from_exit_code_def py_int_str_int)

theorem status_from_exit_code_witness:
  "(77::int) \<notin> {0, 1, 2} \<and> get_status_from_exit_code 77 = ''Unknown (exit_code = 77)''"
proof -
  have s: "str_int 77 = ''77''" by code_simp
  show ?thesis using status_from_exit_code [of 77] by (simp add: s)
qed

section \<open>Docker targets\<close>

text \<open>
  Claim C1. The claim is that a target \<open>docker-image://name\<close> or
  \<open>docker-container://name\<close> fails with the tool-not-found error exactly when
  \<open>oscap_docker_path\<close> is empty. Both branches of \<open>get_evaluation_args\<close> test
  \<open>oscap_ssh_path\<close> instead, while their message names the oscap-docker tool and the
  binary they select is \<open>oscap_docker_path\<close>. So with the docker tool configured and
  the ssh tool missing the target is refused, and with the docker tool missing and the ssh
  tool configured the argument vector starts with the empty string.
\<close>

theorem docker_target_checks_ssh_path:
  "get_evaluation_args (example_spec ''docker-image://fedora'')
     (example_config\<lparr>oscap_ssh_path := []\<rparr>)
     = Inl (tool_not_found ''docker-image://fedora'' ''oscap-docker'') \<and>
   get_evaluation_args (example_spec ''docker-image://fedora'')
     (example_config\<lparr>oscap_docker_path := []\<rparr>)
     = Inr [[], ''image'', ''fedora'', ''xccdf'', ''eval'', ''/content/ssg-ds.xml''] \<and>
   get_evaluation_args (example_spec ''docker-container://web'')
     (example_config\<lparr>oscap_ssh_path := []\<rparr>)
     = Inl (tool_not_found ''docker-container://web'' ''oscap-docker'') \<and>
   get_evaluation_args (example_spec ''docker-container://web'')
     (example_config\<lparr>oscap_docker_path := []\<rparr>)
     = Inr [[], ''container'', ''web'', ''xccdf'', ''eval'', ''/content/ssg-ds.xml'']"
  by (simp add: get_evaluation_args_def resolve_target_def example_spec_def example_config_def
        startswith_def)

section \<open>Targets over ssh\<close>

lemma split_on_nonempty: "split_on sep s \<noteq> []"
  by (induction s) (auto split: list.splits)

lemma split_on_no_sep: "sep \<notin> set s \<Longrightarrow> split_on sep s = [s]"
  by (induction s) auto

lemma split_on_sep:
  "sep \<in> set s \<Longrightarrow>
     split_on sep s = fst (split_once sep s) # split_on sep (snd (split_once sep s))"
  by (induction s) (auto simp: split_once_def)

lemma wf_rest_chars: "wf_rest s \<Longrightarrow> c \<in> set s \<Longrightarrow> is_digit c \<or> c = CHR ''_''"
  by (induction s rule: wf_rest.induct) (auto split: if_splits)

lemma wf_digits_chars: "wf_digits s \<Longrightarrow> c \<in> set s \<Longrightarrow> is_digit c \<or> c = CHR ''_''"
  by (cases s) (auto dest: wf_rest_chars)

lemma in_set_dropWhile: "x \<in> set xs \<Longrightarrow> \<not> P x \<Longrightarrow> x \<in> set (dropWhile P xs)"
  by (induction xs) auto

lemma in_set_strip: "x \<in> set s \<Longrightarrow> \<not> is_space x \<Longrightarrow> x \<in> set (strip s)"
  by (simp add: strip_def in_set_dropWhile)

lemma colon_plain: "\<not> is_space CHR '':''" "\<not> is_digit CHR '':''"
  by (simp_all add: is_space_def is_digit_def)

lemma py_int_whitespace:
  "py_int ([CHR 0x09] @ ''22'' @ [CHR 0x0A]) = Some 22"
  "py_int (''22'' @ [CHR 0xA0]) = Some 22"
  "py_int (''22'' @ [CHR 0x85]) = Some 22"
  "py_int (''22'' @ [CHR 0x1F]) = None"
  "py_int (''22'' @ [CHR 0x1C]) = None"
  "py_int ''2 2'' = None"
  by code_simp+

lemma py_int_colon: "CHR '':'' \<in> set s \<Longrightarrow> py_int s = None"
proof -
  assume "CHR '':'' \<in> set s"
  then have in_strip: "CHR '':'' \<in> set (strip s)"
    by (rule in_set_strip) (rule colon_plain)
  then obtain c cs where eq: "strip s = c # cs" by (cases "strip s") auto
  define body where "body = (if c = CHR ''-'' \<or> c = CHR ''+'' then cs else c # cs)"
  have "CHR '':'' \<in> set body" using in_strip by (auto simp: eq body_def)
  then have "\<not> wf_digits body" using wf_digits_chars [of body "CHR '':''"] colon_plain by auto
  then show ?thesis by (simp add: py_int_def eq Let_def body_def)
qed

lemma sudo_not_ssh:
  assumes "startswith tgt ''ssh+sudo://''"
  shows "\<not> startswith tgt ''ssh://'' \<and> tgt \<noteq> ''localhost''"
proof -
  have a: "take (length ''ssh+sudo://'') tgt = ''ssh+sudo://''"
    using assms unfolding startswith_def .
  have "take (length ''ssh+'') tgt = take (length ''ssh+'') (take (length ''ssh+sudo://'') tgt)"
    by simp
  then have four: "take (length ''ssh+'') tgt = ''ssh+''" by (simp only: a) simp
  have "\<not> startswith tgt ''ssh://''"
  proof
    assume "startswith tgt ''ssh://''"
    then have b: "take (length ''ssh://'') tgt = ''ssh://''" unfolding startswith_def .
    have "take (length ''ssh+'') tgt = take (length ''ssh+'') (take (length ''ssh://'') tgt)"
      by simp
    then have "take (length ''ssh+'') tgt = ''ssh:''" by (simp only: b) simp
    with four show False by simp
  qed
  moreover have "tgt \<noteq> ''localhost''" using a by auto
  ultimately show ?thesis by simp
qed

lemma split_ssh_target_colon:
  assumes pre: "startswith tgt ''ssh://'' \<or> startswith tgt ''ssh+sudo://''"
    and col: "CHR '':'' \<in> set (ssh_remainder tgt)"
  shows "split_ssh_target tgt =
     (case py_int (snd (split_once CHR '':'' (ssh_remainder tgt))) of
        None \<Rightarrow> Inl ValueError
      | Some port \<Rightarrow> Inr (fst (split_once CHR '':'' (ssh_remainder tgt)), port))"
proof -
  let ?r = "ssh_remainder tgt"
  let ?h = "fst (split_once CHR '':'' ?r)" and ?p = "snd (split_once CHR '':'' ?r)"
  have so: "split_on CHR '':'' ?r = ?h # split_on CHR '':'' ?p"
    using col by (rule split_on_sep)
  have unf: "split_ssh_target tgt =
       (case split_on CHR '':'' ?r of
          [host, port_str] \<Rightarrow>
            (case py_int port_str of None \<Rightarrow> Inl ValueError | Some port \<Rightarrow> Inr (host, port))
        | _ \<Rightarrow> Inl ValueError)"
    using pre col by (auto simp: split_ssh_target_def ssh_remainder_def Let_def)
  show ?thesis
  proof (cases "CHR '':'' \<in> set ?p")
    case False
    then have "split_on CHR '':'' ?p = [?p]" by (rule split_on_no_sep)
    then show ?thesis by (simp only: unf so list.case)
  next
    case True
    then have none: "py_int ?p = None" by (rule py_int_colon)
    from True have "split_on CHR '':'' ?p =
        fst (split_once CHR '':'' ?p) # split_on CHR '':'' (snd (split_once CHR '':'' ?p))"
      by (rule split_on_sep)
    moreover obtain y ys where "split_on CHR '':'' (snd (split_once CHR '':'' ?p)) = y # ys"
      using split_on_nonempty by (cases "split_on CHR '':'' (snd (split_once CHR '':'' ?p))") auto
    ultimately show ?thesis by (simp only: unf so none list.case option.case)
  qed
qed

lemma split_ssh_target_no_colon:
  assumes pre: "startswith tgt ''ssh://'' \<or> startswith tgt ''ssh+sudo://''"
    and col: "CHR '':'' \<notin> set (ssh_remainder tgt)"
  shows "split_ssh_target tgt = Inr (ssh_remainder tgt, 22)"
  using pre col by (auto simp: split_ssh_target_def ssh_remainder_def Let_def)

lemma resolve_sudo:
  assumes "startswith tgt ''ssh+sudo://''" "oscap_ssh_path cfg \<noteq> []"
  shows "resolve_target tgt cfg =
     (case split_ssh_target tgt of
        Inl e \<Rightarrow> Inl e
      | Inr (host, port) \<Rightarrow> Inr [oscap_ssh_path cfg, ''--sudo'', host, str_int port])"
  using assms sudo_not_ssh [of tgt] by (simp add: resolve_target_def)

text \<open>
  Claim C5. For a target that starts with \<open>ssh://\<close> or \<open>ssh+sudo://\<close>: without a colon
  in the remainder after the prefix the host is the remainder and the port is 22; with a
  colon, the remainder split once at its first colon gives the host and the text of the
  port, the port is what \<open>int()\<close> reads from that text, and a text \<open>int()\<close> rejects is a
  \<open>ValueError\<close> (a second colon makes the module's unpacking raise \<open>ValueError\<close>, and
  makes the text after the first colon one that \<open>int()\<close> rejects; so does a character
  that is neither a digit nor whitespace for \<open>int()\<close>, such as the separator 0x1F). For \<open>ssh+sudo://\<close>, with
  the ssh binary configured, the resolved vector is the ssh binary followed by
  \<open>--sudo\<close>, the host and the decimal text of the port, before the arguments of the spec.
\<close>

theorem split_ssh_target_host_port:
  assumes "startswith tgt ''ssh://'' \<or> startswith tgt ''ssh+sudo://''"
  shows
  "(CHR '':'' \<notin> set (ssh_remainder tgt) \<longrightarrow>
      split_ssh_target tgt = Inr (ssh_remainder tgt, 22)) \<and>
   (CHR '':'' \<in> set (ssh_remainder tgt) \<longrightarrow>
      (\<forall>port. py_int (snd (split_once CHR '':'' (ssh_remainder tgt))) = Some port \<longrightarrow>
         split_ssh_target tgt = Inr (fst (split_once CHR '':'' (ssh_remainder tgt)), port)) \<and>
      (py_int (snd (split_once CHR '':'' (ssh_remainder tgt))) = None \<longrightarrow>
         split_ssh_target tgt = Inl ValueError)) \<and>
   (startswith tgt ''ssh+sudo://'' \<and> oscap_ssh_path cfg \<noteq> [] \<longrightarrow>
      (\<forall>host port. split_ssh_target tgt = Inr (host, port) \<longrightarrow>
         resolve_target tgt cfg = Inr [oscap_ssh_path cfg, ''--sudo'', host, str_int port] \<and>
         py_int (str_int port) = Some port \<and>
         (\<forall>extra. target spec = tgt \<and> get_oscap_arguments spec cfg = Inr extra \<longrightarrow>
            get_evaluation_args spec cfg =
              Inr ([oscap_ssh_path cfg, ''--sudo'', host, str_int port] @ extra))))"
proof (intro conjI impI allI)
  assume "CHR '':'' \<notin> set (ssh_remainder tgt)"
  with assms show "split_ssh_target tgt = Inr (ssh_remainder tgt, 22)"
    by (rule split_ssh_target_no_colon)
next
  fix port
  assume "CHR '':'' \<in> set (ssh_remainder tgt)"
    and "py_int (snd (split_once CHR '':'' (ssh_remainder tgt))) = Some port"
  then show "split_ssh_target tgt = Inr (fst (split_once CHR '':'' (ssh_remainder tgt)), port)"
    using split_ssh_target_colon [OF assms] by simp
next
  assume "CHR '':'' \<in> set (ssh_remainder tgt)"
    and "py_int (snd (split_once CHR '':'' (ssh_remainder tgt))) = None"
  then show "split_ssh_target tgt = Inl ValueError"
    using split_ssh_target_colon [OF assms] by simp
next
  fix host port
  assume "startswith tgt ''ssh+sudo://'' \<and> oscap_ssh_path cfg \<noteq> []"
    and "split_ssh_target tgt = Inr (host, port)"
  then show "resolve_target tgt cfg = Inr [oscap_ssh_path cfg, ''--sudo'', host, str_int port]"
    using resolve_sudo [of tgt cfg] by simp
next
  fix host port
  show "py_int (str_int port) = Some port" by (rule py_int_str_int)
next
  fix host port extra
  assume "startswith tgt ''ssh+sudo://'' \<and> oscap_ssh_path cfg \<noteq> []"
    and "split_ssh_target tgt = Inr (host, port)"
    and "target spec = tgt \<and> get_oscap_arguments spec cfg = Inr extra"
  then show "get_evaluation_args spec cfg =
      Inr ([oscap_ssh_path cfg, ''--sudo'', host, str_int port] @ extra)"
    using resolve_sudo [of tgt cfg] by (simp add: get_evaluation_args_def)
qed

theorem split_ssh_target_host_port_witness:
  "split_ssh_target ''ssh://h1'' = Inr (''h1'', 22) \<and>
   split_ssh_target ''ssh://h1:2222'' = Inr (''h1'', 2222) \<and>
   split_ssh_target ''ssh://h1:http'' = Inl ValueError \<and>
   split_ssh_target (''ssh://h1:22'' @ [CHR 0x1F]) = Inl ValueError \<and>
   split_ssh_target ''ssh+sudo://h1:2222'' = Inr (''h1'', 2222) \<and>
   get_evaluation_args (example_spec ''ssh+sudo://h1:2222'') example_config =
     Inr [''/usr/bin/oscap-ssh'', ''--sudo'', ''h1'', ''2222'', ''xccdf'', ''eval'',
          ''/content/ssg-ds.xml'']"
proof -
  have p: "startswith ''ssh://h1'' ''ssh://''" "startswith ''ssh://h1:2222'' ''ssh://''"
    "startswith ''ssh://h1:http'' ''ssh://''" "startswith ''ssh+sudo://h1:2222'' ''ssh+sudo://''"
    by (simp_all add: startswith_def)
  have r: "ssh_remainder ''ssh://h1'' = ''h1''" "ssh_remainder ''ssh://h1:2222'' = ''h1:2222''"
    "ssh_remainder ''ssh://h1:http'' = ''h1:http''"
    "ssh_remainder ''ssh+sudo://h1:2222'' = ''h1:2222''"
    by (simp_all add: ssh_remainder_def startswith_def)
  have s: "split_once CHR '':'' ''h1:2222'' = (''h1'', ''2222'')"
    "split_once CHR '':'' ''h1:http'' = (''h1'', ''http'')"
    by (simp_all add: split_once_def)
  have i: "py_int ''2222'' = Some 2222" "py_int ''http'' = None" "str_int 2222 = ''2222''"
    by code_simp+
  have c: "oscap_ssh_path example_config \<noteq> []"
    "target (example_spec ''ssh+sudo://h1:2222'') = ''ssh+sudo://h1:2222''"
    "get_oscap_arguments (example_spec ''ssh+sudo://h1:2222'') example_config =
       Inr [''xccdf'', ''eval'', ''/content/ssg-ds.xml'']"
    "oscap_ssh_path example_config = ''/usr/bin/oscap-ssh''"
    by (simp_all add: example_config_def example_spec_def)
  have a: "split_ssh_target ''ssh://h1'' = Inr (''h1'', 22)"
    using split_ssh_target_host_port [of "''ssh://h1''"] p r by simp
  have b: "split_ssh_target ''ssh://h1:2222'' = Inr (''h1'', 2222)"
    using split_ssh_target_host_port [of "''ssh://h1:2222''"] p r s i by simp
  have d: "split_ssh_target ''ssh://h1:http'' = Inl ValueError"
    using split_ssh_target_host_port [of "''ssh://h1:http''"] p r s i by simp
  have e: "split_ssh_target ''ssh+sudo://h1:2222'' = Inr (''h1'', 2222)"
    using split_ssh_target_host_port [of "''ssh+sudo://h1:2222''"] p r s i by simp
  have g: "split_ssh_target (''ssh://h1:22'' @ [CHR 0x1F]) = Inl ValueError"
  proof -
    have "startswith (''ssh://h1:22'' @ [CHR 0x1F]) ''ssh://''"
      by (simp add: startswith_def)
    moreover have "ssh_remainder (''ssh://h1:22'' @ [CHR 0x1F]) = ''h1:22'' @ [CHR 0x1F]"
      by (simp add: ssh_remainder_def startswith_def)
    moreover have "split_once CHR '':'' (''h1:22'' @ [CHR 0x1F]) = (''h1'', ''22'' @ [CHR 0x1F])"
      by (simp add: split_once_def)
    ultimately show ?thesis
      using split_ssh_target_host_port [of "''ssh://h1:22'' @ [CHR 0x1F]"] py_int_whitespace(4)
      by simp
  qed
  have f: "get_evaluation_args (example_spec ''ssh+sudo://h1:2222'') example_config =
     Inr [''/usr/bin/oscap-ssh'', ''--sudo'', ''h1'', ''2222'', ''xccdf'', ''eval'',
          ''/content/ssg-ds.xml'']"
    using split_ssh_target_host_port [of "''ssh+sudo://h1:2222''" example_config "example_spec ''ssh+sudo://h1:2222''"]
      p e c i by simp
  from a b d e f g show ?thesis by simp
qed

section \<open>The run directory of an evaluation\<close>




lemma write_text_result:
  "write_text d n txt w = Inr w' \<Longrightarrow>
     dirs w' = dirs w \<and> entries w' = (entries w)(d := (entries w d)(n \<mapsto> txt)) \<and>
     d \<in> set (dirs w)"
  by (auto simp: write_text_def io_open_w_def split: if_splits)

lemma write_text_succeeds:
  "d \<in> set (dirs w) \<Longrightarrow> \<not> blocked w d n \<Longrightarrow> \<exists>w'. write_text d n txt w = Inr w'"
  by (simp add: write_text_def io_open_w_def)

lemma evaluate_invalid: "\<not> is_valid spec \<Longrightarrow> evaluate call spec cfg w = (Inl invalid_spec, w)"
  by (simp add: evaluate_def)

lemma evaluate_args_fail:
  assumes "is_valid spec"
    and "mkdtemp (work_in_progress_dir cfg) w = Inr (wd, w1)"
    and "io_open_w wd ''stdout'' w1 = Inr w2"
    and "io_open_w wd ''stderr'' w2 = Inr w3"
    and "get_evaluation_args spec cfg = Inl e"
  shows "evaluate call spec cfg w = (Inl e, w3)"
  using assms by (simp add: evaluate_def)

lemma evaluate_run:
  assumes "is_valid spec"
    and "mkdtemp (work_in_progress_dir cfg) w = Inr (wd, w1)"
    and "io_open_w wd ''stdout'' w1 = Inr w2"
    and "io_open_w wd ''stderr'' w2 = Inr w3"
    and "get_evaluation_args spec cfg = Inr args"
    and "call args wd w3 = (r, w4)"
  shows "evaluate call spec cfg w =
     (case write_text wd ''exit_code'' (str_int (case r of Inl e \<Rightarrow> 1 | Inr c \<Rightarrow> c)) w4 of
        Inl e \<Rightarrow> (Inl e, w4)
      | Inr w5 \<Rightarrow> (Inr wd, w5))"
  using assms by (simp add: evaluate_def Let_def)

lemma str_int_1: "str_int 1 = ''1''"
  by code_simp


lemma example_setup:
  "mkdtemp (work_in_progress_dir example_config) example_world = Inr (run_dir, world_dir)"
  "io_open_w run_dir ''stdout'' world_dir = Inr world_out"
  "io_open_w run_dir ''stderr'' world_out = Inr world_err"
proof -
  show "mkdtemp (work_in_progress_dir example_config) example_world = Inr (run_dir, world_dir)"
    by (simp add: mkdtemp_def example_world_def example_config_def path_join_def run_dir_def
          world_dir_def Let_def)
  show "io_open_w run_dir ''stdout'' world_dir = Inr world_out"
    by (simp add: io_open_w_def world_out_def world_dir_def example_world_def)
  show "io_open_w run_dir ''stderr'' world_out = Inr world_err"
    by (simp add: io_open_w_def world_err_def world_out_def world_dir_def example_world_def)
qed


lemma example_args:
  "get_evaluation_args (example_spec ''localhost'') example_config =
     Inr [''/usr/bin/oscap'', ''xccdf'', ''eval'', ''/content/ssg-ds.xml'']"
  by (simp add: get_evaluation_args_def resolve_target_def example_spec_def example_config_def)

lemma example_calls:
  "call_exit c args run_dir world_err = (Inr c, world_ran)"
  "call_fails args run_dir world_err = (Inl OSError, world_err)"
  by (simp_all add: call_exit_def call_fails_def world_ran_def)

lemma example_writable:
  "run_dir \<in> set (dirs world_err)" "\<not> blocked world_err run_dir n"
  "run_dir \<in> set (dirs world_ran)" "\<not> blocked world_ran run_dir n"
  by (simp_all add: world_ran_def world_err_def world_out_def world_dir_def example_world_def)

lemma example_returns:
  assumes "call [''/usr/bin/oscap'', ''xccdf'', ''eval'', ''/content/ssg-ds.xml''] run_dir world_err
             = (r, w4)"
    and "run_dir \<in> set (dirs w4)" "\<not> blocked w4 run_dir ''exit_code''"
  shows "\<exists>w'. evaluate call (example_spec ''localhost'') example_config example_world
                = (Inr run_dir, w')"
proof -
  let ?txt = "str_int (case r of Inl e \<Rightarrow> 1 | Inr c \<Rightarrow> c)"
  obtain w5 where "write_text run_dir ''exit_code'' ?txt w4 = Inr w5"
    using assms(2,3) write_text_succeeds [of run_dir w4 "''exit_code''" ?txt] by auto
  moreover have "is_valid (example_spec ''localhost'')" by (simp add: example_spec_def)
  ultimately show ?thesis
    using evaluate_run [of "example_spec ''localhost''" example_config example_world run_dir
                           world_dir world_out world_err _ call r w4]
      example_setup example_args assms(1)
    by simp
qed

text \<open>
  Claim C3, as stated: \<open>evaluate\<close> returns the run directory in all cases except an
  invalid spec. It does not: a valid spec whose target has no known form makes
  \<open>get_evaluation_args\<close> raise, and \<open>evaluate\<close> lets that error through; the error is not
  the one of an invalid spec.
\<close>

theorem evaluate_unknown_target_counterexample:
  "is_valid (example_spec ''foo://x'') \<and>
   fst (evaluate (call_exit 0) (example_spec ''foo://x'') example_config example_world)
     = Inl (unrecognized_target ''foo://x'') \<and>
   unrecognized_target ''foo://x'' \<noteq> invalid_spec"
  by (simp add: evaluate_def example_setup get_evaluation_args_def resolve_target_def
        example_spec_def startswith_def unrecognized_target_def invalid_spec_def apos_def)

text \<open>
  Claim C3, amended. An invalid spec fails with the invalid-spec error. For a valid spec,
  once the run directory is made and its two output files are opened: an error of
  \<open>get_evaluation_args\<close> (unrecognized target, unconfigured tool, bad port, or an error of
  the spec's own arguments) is raised by \<open>evaluate\<close>; and when the arguments resolve,
  \<open>evaluate\<close> returns the run directory whatever the child did, whether it exits with zero
  or not or cannot be started, provided the \<open>exit_code\<close> file can be written.
\<close>

theorem evaluate_returns_run_directory:
  "(\<not> is_valid spec \<longrightarrow> fst (evaluate call spec cfg w) = Inl invalid_spec) \<and>
   (is_valid spec \<and>
    mkdtemp (work_in_progress_dir cfg) w = Inr (wd, w1) \<and>
    io_open_w wd ''stdout'' w1 = Inr w2 \<and>
    io_open_w wd ''stderr'' w2 = Inr w3 \<longrightarrow>
      (\<forall>e. get_evaluation_args spec cfg = Inl e \<longrightarrow> fst (evaluate call spec cfg w) = Inl e) \<and>
      (\<forall>args r w4. get_evaluation_args spec cfg = Inr args \<and> call args wd w3 = (r, w4) \<and>
          wd \<in> set (dirs w4) \<and> \<not> blocked w4 wd ''exit_code'' \<longrightarrow>
          fst (evaluate call spec cfg w) = Inr wd))"
proof (intro conjI impI allI)
  assume "\<not> is_valid spec"
  then show "fst (evaluate call spec cfg w) = Inl invalid_spec"
    by (simp add: evaluate_invalid)
next
  fix e
  assume "is_valid spec \<and> mkdtemp (work_in_progress_dir cfg) w = Inr (wd, w1) \<and>
    io_open_w wd ''stdout'' w1 = Inr w2 \<and> io_open_w wd ''stderr'' w2 = Inr w3"
    and "get_evaluation_args spec cfg = Inl e"
  then show "fst (evaluate call spec cfg w) = Inl e"
    using evaluate_args_fail [of spec cfg w wd w1 w2 w3 e call] by simp
next
  fix args r w4
  assume pre: "is_valid spec \<and> mkdtemp (work_in_progress_dir cfg) w = Inr (wd, w1) \<and>
    io_open_w wd ''stdout'' w1 = Inr w2 \<and> io_open_w wd ''stderr'' w2 = Inr w3"
    and rn: "get_evaluation_args spec cfg = Inr args \<and> call args wd w3 = (r, w4) \<and>
          wd \<in> set (dirs w4) \<and> \<not> blocked w4 wd ''exit_code''"
  let ?txt = "str_int (case r of Inl e \<Rightarrow> 1 | Inr c \<Rightarrow> c)"
  obtain w5 where "write_text wd ''exit_code'' ?txt w4 = Inr w5"
    using rn write_text_succeeds [of wd w4 "''exit_code''" ?txt] by auto
  then show "fst (evaluate call spec cfg w) = Inr wd"
    using pre rn evaluate_run [of spec cfg w wd w1 w2 w3 args call r w4] by simp
qed

theorem evaluate_returns_run_directory_witness:
  "fst (evaluate (call_exit 2) ((example_spec ''localhost'')\<lparr>is_valid := False\<rparr>) example_config
          example_world) = Inl invalid_spec \<and>
   fst (evaluate (call_exit 2) (example_spec ''chroot:///mnt/root'')
          (example_config\<lparr>oscap_chroot_path := []\<rparr>) example_world)
     = Inl (tool_not_found ''chroot:///mnt/root'' ''oscap-chroot'') \<and>
   fst (evaluate (call_exit 2) (example_spec ''localhost'') example_config example_world)
     = Inr run_dir \<and>
   fst (evaluate call_fails (example_spec ''localhost'') example_config example_world)
     = Inr run_dir"
proof -
  have v: "is_valid (example_spec ''chroot:///mnt/root'')" "is_valid (example_spec ''localhost'')"
    "\<not> is_valid ((example_spec ''localhost'')\<lparr>is_valid := False\<rparr>)"
    by (simp_all add: example_spec_def)
  have s2: "mkdtemp (work_in_progress_dir (example_config\<lparr>oscap_chroot_path := []\<rparr>))
              example_world = Inr (run_dir, world_dir)"
    using example_setup(1) by simp
  have a: "get_evaluation_args (example_spec ''chroot:///mnt/root'')
             (example_config\<lparr>oscap_chroot_path := []\<rparr>)
           = Inl (tool_not_found ''chroot:///mnt/root'' ''oscap-chroot'')"
    by (simp add: get_evaluation_args_def resolve_target_def example_spec_def startswith_def)
  have 1: "fst (evaluate (call_exit 2) ((example_spec ''localhost'')\<lparr>is_valid := False\<rparr>)
                  example_config example_world) = Inl invalid_spec"
    using evaluate_returns_run_directory [of "(example_spec ''localhost'')\<lparr>is_valid := False\<rparr>" "call_exit 2"
                   example_config example_world] v
    by simp
  have 2: "fst (evaluate (call_exit 2) (example_spec ''chroot:///mnt/root'')
                  (example_config\<lparr>oscap_chroot_path := []\<rparr>) example_world)
             = Inl (tool_not_found ''chroot:///mnt/root'' ''oscap-chroot'')"
    using evaluate_returns_run_directory [of "example_spec ''chroot:///mnt/root''" "call_exit 2"
                   "example_config\<lparr>oscap_chroot_path := []\<rparr>" example_world
                   run_dir world_dir world_out world_err] v s2 example_setup(2,3) a
    by simp
  have 3: "fst (evaluate (call_exit 2) (example_spec ''localhost'') example_config example_world)
             = Inr run_dir"
    using evaluate_returns_run_directory [of "example_spec ''localhost''" "call_exit 2" example_config example_world
                   run_dir world_dir world_out world_err] v example_setup example_args
      example_calls(1) [of 2] example_writable
    by simp
  have 4: "fst (evaluate call_fails (example_spec ''localhost'') example_config example_world)
             = Inr run_dir"
    using evaluate_returns_run_directory [of "example_spec ''localhost''" call_fails example_config example_world
                   run_dir world_dir world_out world_err] v example_setup example_args
      example_calls(2) example_writable
    by simp
  from 1 2 3 4 show ?thesis by simp
qed

text \<open>
  Claim C4. When \<open>evaluate\<close> has made the run directory, opened its two output files,
  resolved the arguments and called the child, and returns a directory, then that
  directory is the run directory, it exists, and its file \<open>exit_code\<close> holds the decimal
  text of the exit code the call returned, which \<open>int()\<close> reads back as that code; when
  the call raised, the file holds exactly \<open>1\<close>.
\<close>

theorem exit_code_file_records_exit_code:
  assumes "is_valid spec"
    and "mkdtemp (work_in_progress_dir cfg) w = Inr (wd, w1)"
    and "io_open_w wd ''stdout'' w1 = Inr w2"
    and "io_open_w wd ''stderr'' w2 = Inr w3"
    and "get_evaluation_args spec cfg = Inr args"
    and "call args wd w3 = (r, w4)"
    and "evaluate call spec cfg w = (Inr d, w')"
  shows "d = wd \<and> d \<in> set (dirs w') \<and>
         (\<forall>c. r = Inr c \<longrightarrow>
            entries w' d ''exit_code'' = Some (str_int c) \<and> py_int (str_int c) = Some c) \<and>
         (\<forall>e. r = Inl e \<longrightarrow> entries w' d ''exit_code'' = Some ''1'')"
proof -
  let ?txt = "str_int (case r of Inl e \<Rightarrow> 1 | Inr c \<Rightarrow> c)"
  have ev: "(case write_text wd ''exit_code'' ?txt w4 of
               Inl e \<Rightarrow> (Inl e, w4) | Inr w5 \<Rightarrow> (Inr wd, w5)) = (Inr d, w')"
    using evaluate_run [of spec cfg w wd w1 w2 w3 args call r w4] assms by simp
  then obtain w5 where wr: "write_text wd ''exit_code'' ?txt w4 = Inr w5"
    by (cases "write_text wd ''exit_code'' ?txt w4") auto
  with ev have eq: "d = wd" "w' = w5" by simp_all
  from write_text_result [OF wr]
  have "wd \<in> set (dirs w5)" "entries w5 wd ''exit_code'' = Some ?txt" by simp_all
  then show ?thesis by (auto simp: eq py_int_str_int str_int_1)
qed

theorem exit_code_file_records_exit_code_witness:
  "fst (evaluate (call_exit 2) (example_spec ''localhost'') example_config example_world)
     = Inr run_dir \<and>
   entries (snd (evaluate (call_exit 2) (example_spec ''localhost'') example_config example_world))
     run_dir ''exit_code'' = Some ''2'' \<and>
   py_int ''2'' = Some 2 \<and>
   fst (evaluate call_fails (example_spec ''localhost'') example_config example_world)
     = Inr run_dir \<and>
   entries (snd (evaluate call_fails (example_spec ''localhost'') example_config example_world))
     run_dir ''exit_code'' = Some ''1''"
proof -
  have v: "is_valid (example_spec ''localhost'')" by (simp add: example_spec_def)
  have s2: "str_int 2 = ''2''" by code_simp
  obtain wa where a: "evaluate (call_exit 2) (example_spec ''localhost'') example_config
                        example_world = (Inr run_dir, wa)"
    using example_returns [of "call_exit 2" "Inr 2" world_ran] example_calls(1) example_writable
    by auto
  obtain wb where b: "evaluate call_fails (example_spec ''localhost'') example_config
                        example_world = (Inr run_dir, wb)"
    using example_returns [of call_fails "Inl OSError" world_err] example_calls(2) example_writable
    by auto
  have "entries wa run_dir ''exit_code'' = Some ''2'' \<and> py_int ''2'' = Some 2"
    using exit_code_file_records_exit_code [of "example_spec ''localhost''" example_config example_world run_dir world_dir
                   world_out world_err _ "call_exit 2" "Inr 2" world_ran run_dir wa]
      v example_setup example_args example_calls(1) a
    by (simp add: s2)
  moreover have "entries wb run_dir ''exit_code'' = Some ''1''"
    using exit_code_file_records_exit_code [of "example_spec ''localhost''" example_config example_world run_dir world_dir
                   world_out world_err _ call_fails "Inl OSError" world_err run_dir wb]
      v example_setup example_args example_calls(2) b
    by simp
  ultimately show ?thesis by (simp add: a b)
qed



section \<open>Profile choices and the sentinel entry\<close>

lemma scrape_elems_distinct:
  "distinct (map fst dest) \<Longrightarrow> distinct (map fst (scrape_elems ev pns elems dest))"
  by (induction elems arbitrary: dest) (simp_all add: Let_def distinct_update)

lemma scrape_refs_distinct:
  "distinct (map fst dest) \<Longrightarrow> scrape_refs ev t xns pns xs dest = Inr d \<Longrightarrow>
     distinct (map fst d)"
proof (induction xs arbitrary: dest)
  case Nil
  then show ?case by simp
next
  case (Cons x xs)
  from Cons.prems(2) obtain c0 elems where
    "scrape_refs ev t xns pns xs (scrape_elems ev pns elems dest) = Inr d"
    by (auto simp: Let_def split: sum.splits)
  moreover have "distinct (map fst (scrape_elems ev pns elems dest))"
    using Cons.prems(1) by (rule scrape_elems_distinct)
  ultimately show ?case using Cons.IH by blast
qed

lemma scrape_profiles_distinct:
  "distinct (map fst dest) \<Longrightarrow> scrape_profiles ev t xid xns pns dest = Inr d \<Longrightarrow>
     distinct (map fst d)"
  by (auto simp: scrape_profiles_def split: sum.splits dest: scrape_refs_distinct)

lemma scrape_both_distinct:
  "distinct (map fst dest) \<Longrightarrow> scrape_both ev t xid dest = Inr d \<Longrightarrow> distinct (map fst d)"
  unfolding scrape_both_def
  by (auto split: sum.splits dest: scrape_profiles_distinct)

lemma key_once:
  "distinct (map fst al) \<Longrightarrow> map_of al k = Some v \<Longrightarrow>
     length (filter (\<lambda>kv. fst kv = k) al) = 1"
proof (induction al)
  case Nil
  then show ?case by simp
next
  case (Cons p al)
  show ?case
  proof (cases "fst p = k")
    case True
    then have "k \<notin> fst ` set al" using Cons.prems(1) by auto
    then have "filter (\<lambda>kv. fst kv = k) al = []" by (auto simp: filter_empty_conv)
    with True show ?thesis by simp
  next
    case False
    with Cons show ?thesis by (cases p) auto
  qed
qed

lemma sentinel_update:
  assumes "distinct (map fst ret)"
  shows "map_of (AList.update (Some []) ''(default)'' ret) (Some []) = Some ''(default)'' \<and>
         distinct (map fst (AList.update (Some []) ''(default)'' ret)) \<and>
         length (filter (\<lambda>kv. fst kv = Some [])
                   (AList.update (Some []) ''(default)'' ret)) = 1"
proof -
  have m: "map_of (AList.update (Some []) ''(default)'' ret) (Some []) = Some ''(default)''"
    by (simp add: update_conv')
  have d: "distinct (map fst (AList.update (Some []) ''(default)'' ret))"
    using assms by (rule distinct_update)
  from key_once [OF d m] m d show ?thesis by simp
qed

lemma choices_content_unreadable:
  "parse ev input_file = Inl IOError \<or> parse ev input_file = Inl ParseError \<Longrightarrow>
     get_profile_choices_for_input ev input_file tailoring_file xccdf_id = Inr []"
  by (auto simp: get_profile_choices_for_input_def)

lemma choices_parsed:
  "parse ev input_file = Inr t \<Longrightarrow>
     get_profile_choices_for_input ev input_file tailoring_file xccdf_id =
       (case scrape_both ev t xccdf_id [] of
          Inl e \<Rightarrow> Inl e
        | Inr ret1 \<Rightarrow>
            (case (if truthy tailoring_file
                   then (case parse ev (the tailoring_file) of
                           Inl e \<Rightarrow> Inl e
                         | Inr tailoring_tree \<Rightarrow> scrape_both ev tailoring_tree None ret1)
                   else Inr ret1) of
               Inl e \<Rightarrow> Inl e
             | Inr ret2 \<Rightarrow> Inr (AList.update (Some []) ''(default)'' ret2)))"
  by (simp add: get_profile_choices_for_input_def)

lemma choices_sentinel:
  assumes "parse ev input_file = Inr t"
    and "get_profile_choices_for_input ev input_file tailoring_file xccdf_id = Inr ret"
  shows "\<exists>ret2. distinct (map fst ret2) \<and> ret = AList.update (Some []) ''(default)'' ret2"
proof -
  from assms obtain ret1 where r1: "scrape_both ev t xccdf_id [] = Inr ret1"
    by (auto simp: choices_parsed split: sum.splits)
  have d1: "distinct (map fst ret1)" using scrape_both_distinct [OF _ r1] by simp
  from assms r1 obtain ret2 where
    r2: "(if truthy tailoring_file
          then (case parse ev (the tailoring_file) of
                  Inl e \<Rightarrow> Inl e
                | Inr tailoring_tree \<Rightarrow> scrape_both ev tailoring_tree None ret1)
          else Inr ret1) = Inr ret2"
    and ret: "ret = AList.update (Some []) ''(default)'' ret2"
    by (auto simp: choices_parsed split: sum.splits)
  have "distinct (map fst ret2)"
  proof (cases "truthy tailoring_file")
    case False
    with r2 d1 show ?thesis by simp
  next
    case True
    with r2 obtain tt where "scrape_both ev tt None ret1 = Inr ret2"
      by (auto split: sum.splits)
    from scrape_both_distinct [OF d1 this] show ?thesis .
  qed
  with ret show ?thesis by blast
qed

lemma example_parse:
  "parse example_env ''/content/ssg-ds.xml'' = Inr content_tree"
  "parse example_env ''/content/broken.xml'' = Inl ParseError"
  "parse example_env ''/content/missing.xml'' = Inl IOError"
  "parse example_env ''/content/missing-tailoring.xml'' = Inl IOError"
  "parse example_env ''/results/1/results.xml'' = Inr results_tree"
  "parse example_env ''/results/2/results.xml'' = Inr empty_results_tree"
  by (simp_all add: example_env_def)

lemma example_findall_11:
  "findall example_env content_tree
     (component_ref_path None ''http://scap.nist.gov/schema/scap/source/1.1'') = Inr []"
  by (simp add: example_env_def component_ref_path_def profile_path_def ns_ds12_def
        ns_xccdf12_def)

lemma example_findall_12:
  "findall example_env content_tree
     (component_ref_path None ''http://scap.nist.gov/schema/scap/source/1.2'') = Inr [ref_elem]"
  by (simp add: example_env_def component_ref_path_def profile_path_def ns_ds12_def
        ns_xccdf12_def)

lemma example_findall_profiles:
  "findall example_env content_tree
     (profile_path ''http://scap.nist.gov/schema/scap/source/1.2'' ''c1''
        ''http://checklists.nist.gov/xccdf/1.2'')
     = Inr [profile_elem ''p1'' ''Title A'', profile_elem ''p2'' ''Title B'']"
  by (simp add: example_env_def component_ref_path_def profile_path_def ns_ds12_def
        ns_xccdf12_def)

lemma example_href: "attrib_at ref_elem xlink_href = Inr ''#c1''"
  by (simp add: attrib_at_def ref_elem_def xlink_href_def)

lemma example_profile:
  "elem_get (profile_elem i title) ''id'' = Some i"
  "get_element_text example_env (profile_elem i title)
     ''{http://checklists.nist.gov/xccdf/1.2}title'' [] = title"
  by (simp_all add: elem_get_def profile_elem_def example_env_def child_text_def ns_xccdf12_def)

lemma example_scrape:
  "scrape_both example_env content_tree None [] =
     Inr [(Some ''p1'', ''Title A''), (Some ''p2'', ''Title B'')]"
  by (simp add: scrape_both_def scrape_profiles_def example_findall_11 example_findall_12
        example_findall_profiles example_href example_profile Let_def)

lemma example_choices:
  "get_profile_choices_for_input example_env ''/content/ssg-ds.xml'' None None =
     Inr [(Some ''p1'', ''Title A''), (Some ''p2'', ''Title B''), (Some [], ''(default)'')]"
  by (simp add: choices_parsed [OF example_parse(1)] example_scrape truthy_def)

lemma example_choices_return:
  "\<exists>ret. get_profile_choices_for_input example_env ''/content/ssg-ds.xml'' None None = Inr ret"
  by (simp add: example_choices)

text \<open>
  Claim C2, as stated: the returned map always holds the entry from the empty key to
  \<open>(default)\<close>, and is exactly that entry when the content cannot be opened or parsed.
  It is not: both \<open>except\<close> clauses return \<open>ret\<close> before the entry is stored, so for
  content that cannot be opened the result is the empty map.
\<close>

theorem profile_choices_unreadable_content_counterexample:
  "parse example_env ''/content/missing.xml'' = Inl IOError \<and>
   get_profile_choices_for_input example_env ''/content/missing.xml'' None None = Inr [] \<and>
   get_profile_choices_for_input example_env ''/content/missing.xml'' None None
     \<noteq> Inr [(Some [], ''(default)'')]"
  by (simp add: get_profile_choices_for_input_def example_parse)

text \<open>
  Claim C2, amended. When the content cannot be opened or is not XML the function returns
  the empty map. When the content parses and the function returns, the returned map holds
  the entry from the empty key to \<open>(default)\<close>, that key occurs exactly once, and no key
  occurs twice.
\<close>

theorem profile_choices_sentinel:
  "((parse ev input_file = Inl IOError \<or> parse ev input_file = Inl ParseError) \<longrightarrow>
      get_profile_choices_for_input ev input_file tailoring_file xccdf_id = Inr []) \<and>
   (\<forall>t ret. parse ev input_file = Inr t \<and>
      get_profile_choices_for_input ev input_file tailoring_file xccdf_id = Inr ret \<longrightarrow>
        map_of ret (Some []) = Some ''(default)'' \<and>
        length (filter (\<lambda>kv. fst kv = Some []) ret) = 1 \<and>
        distinct (map fst ret))"
proof (intro conjI impI allI)
  assume "parse ev input_file = Inl IOError \<or> parse ev input_file = Inl ParseError"
  then show "get_profile_choices_for_input ev input_file tailoring_file xccdf_id = Inr []"
    by (rule choices_content_unreadable)
next
  fix t ret
  assume a: "parse ev input_file = Inr t \<and>
      get_profile_choices_for_input ev input_file tailoring_file xccdf_id = Inr ret"
  then obtain ret2 where "distinct (map fst ret2)"
    and "ret = AList.update (Some []) ''(default)'' ret2"
    using choices_sentinel [of ev input_file t tailoring_file xccdf_id ret] by auto
  then have all: "map_of ret (Some []) = Some ''(default)'' \<and> distinct (map fst ret) \<and>
      length (filter (\<lambda>kv. fst kv = Some []) ret) = 1"
    using sentinel_update [of ret2] by simp
  from all show "map_of ret (Some []) = Some ''(default)''" by simp
  from all show "length (filter (\<lambda>kv. fst kv = Some []) ret) = 1" by simp
  from all show "distinct (map fst ret)" by simp
qed

theorem profile_choices_sentinel_witness:
  "get_profile_choices_for_input example_env ''/content/missing.xml'' None None = Inr [] \<and>
   get_profile_choices_for_input example_env ''/content/broken.xml'' None None = Inr [] \<and>
   map_of (projr (get_profile_choices_for_input example_env ''/content/ssg-ds.xml'' None None))
     (Some []) = Some ''(default)'' \<and>
   length (filter (\<lambda>kv. fst kv = Some [])
     (projr (get_profile_choices_for_input example_env ''/content/ssg-ds.xml'' None None))) = 1"
proof -
  obtain ret where r: "get_profile_choices_for_input example_env ''/content/ssg-ds.xml'' None None
                         = Inr ret"
    using example_choices_return by blast
  have 1: "get_profile_choices_for_input example_env ''/content/missing.xml'' None None = Inr []"
    using profile_choices_sentinel [of example_env "''/content/missing.xml''" None None] example_parse by simp
  have 2: "get_profile_choices_for_input example_env ''/content/broken.xml'' None None = Inr []"
    using profile_choices_sentinel [of example_env "''/content/broken.xml''" None None] example_parse by simp
  have 3: "map_of ret (Some []) = Some ''(default)'' \<and>
           length (filter (\<lambda>kv. fst kv = Some []) ret) = 1"
    using profile_choices_sentinel [of example_env "''/content/ssg-ds.xml''" None None] example_parse(1) r by simp
  from 1 2 3 show ?thesis by (simp add: r)
qed

text \<open>
  Claim C8. An \<open>IOError\<close> or \<open>ParseError\<close> on the content document is not fatal: the
  function returns the map collected so far, which is empty. With content that parses and
  a tailoring path that is given and not empty, any error of parsing the tailoring
  document makes the function raise; it is that very error whenever the scraping of the
  content itself went through.
\<close>

theorem parse_failure_content_and_tailoring:
  "((parse ev input_file = Inl IOError \<or> parse ev input_file = Inl ParseError) \<longrightarrow>
      get_profile_choices_for_input ev input_file tailoring_file xccdf_id = Inr []) \<and>
   (\<forall>t tf e. parse ev input_file = Inr t \<and> tailoring_file = Some tf \<and> tf \<noteq> [] \<and>
      parse ev tf = Inl e \<longrightarrow>
        isl (get_profile_choices_for_input ev input_file tailoring_file xccdf_id) \<and>
        (\<forall>ret1. scrape_both ev t xccdf_id [] = Inr ret1 \<longrightarrow>
           get_profile_choices_for_input ev input_file tailoring_file xccdf_id = Inl e))"
proof (intro conjI impI allI)
  assume "parse ev input_file = Inl IOError \<or> parse ev input_file = Inl ParseError"
  then show "get_profile_choices_for_input ev input_file tailoring_file xccdf_id = Inr []"
    by (rule choices_content_unreadable)
next
  fix t tf e
  assume "parse ev input_file = Inr t \<and> tailoring_file = Some tf \<and> tf \<noteq> [] \<and>
      parse ev tf = Inl e"
  then show "isl (get_profile_choices_for_input ev input_file tailoring_file xccdf_id)"
    by (auto simp: choices_parsed truthy_def split: sum.splits)
next
  fix t tf e ret1
  assume "parse ev input_file = Inr t \<and> tailoring_file = Some tf \<and> tf \<noteq> [] \<and>
      parse ev tf = Inl e"
    and "scrape_both ev t xccdf_id [] = Inr ret1"
  then show "get_profile_choices_for_input ev input_file tailoring_file xccdf_id = Inl e"
    by (simp add: choices_parsed truthy_def)
qed

theorem parse_failure_content_and_tailoring_witness:
  "get_profile_choices_for_input example_env ''/content/broken.xml''
     (Some ''/content/missing-tailoring.xml'') None = Inr [] \<and>
   get_profile_choices_for_input example_env ''/content/ssg-ds.xml''
     (Some ''/content/missing-tailoring.xml'') None = Inl IOError \<and>
   get_profile_choices_for_input example_env ''/content/ssg-ds.xml''
     (Some ''/content/broken.xml'') None = Inl ParseError"
proof -
  have 1: "get_profile_choices_for_input example_env ''/content/broken.xml''
     (Some ''/content/missing-tailoring.xml'') None = Inr []"
    using parse_failure_content_and_tailoring [of example_env "''/content/broken.xml''" "Some ''/content/missing-tailoring.xml''"
                   None] example_parse
    by simp
  have 2: "get_profile_choices_for_input example_env ''/content/ssg-ds.xml''
     (Some ''/content/missing-tailoring.xml'') None = Inl IOError"
    using parse_failure_content_and_tailoring [of example_env "''/content/ssg-ds.xml''" "Some ''/content/missing-tailoring.xml''"
                   None] example_parse example_scrape
    by simp
  have 3: "get_profile_choices_for_input example_env ''/content/ssg-ds.xml''
     (Some ''/content/broken.xml'') None = Inl ParseError"
    using parse_failure_content_and_tailoring [of example_env "''/content/ssg-ds.xml''" "Some ''/content/broken.xml''" None]
      example_parse example_scrape
    by simp
  from 1 2 3 show ?thesis by simp
qed

section \<open>The arguments of fix generation\<close>

lemma fix_type_known:
  "fix_type_to_template ''bash'' = Inr ''urn:xccdf:fix:script:sh''"
  "fix_type_to_template ''ansible'' = Inr ''urn:xccdf:fix:script:ansible''"
  "fix_type_to_template ''puppet'' = Inr ''urn:xccdf:fix:script:puppet''"
  by (simp_all add: fix_type_to_template_def fix_templates_def)

lemma fix_type_other:
  "fix_type \<notin> {''bash'', ''ansible'', ''puppet''} \<Longrightarrow> fix_type_to_template fix_type = Inl KeyError"
  by (simp add: fix_type_to_template_def fix_templates_def)

lemma generate_fix_unknown_type:
  "fix_type_to_template fix_type = Inl e \<Longrightarrow>
     isl (generate_fix_for_result ev cfg results_path fix_type xccdf_id)"
  by (simp add: generate_fix_for_result_def split: sum.splits)

lemma generate_fix_no_results:
  assumes "path_exists ev results_path" "parse ev results_path = Inr root"
    and "find_elem ev root ''.//xccdf:TestResult''
           [(''xccdf'', ''http://checklists.nist.gov/xccdf/1.2'')] = Inr None"
  shows "generate_fix_for_result ev cfg results_path fix_type xccdf_id
           = Inl (no_results results_path)"
  using assms by (simp add: generate_fix_for_result_def get_result_id_def)

lemma generate_fix_invokes:
  assumes "path_exists ev results_path" "parse ev results_path = Inr root"
    and "find_elem ev root ''.//xccdf:TestResult''
           [(''xccdf'', ''http://checklists.nist.gov/xccdf/1.2'')] = Inr (Some tr)"
    and "attrib_at tr ''id'' = Inr rid"
    and "fix_type_to_template fix_type = Inr template"
  shows "generate_fix_for_result ev cfg results_path fix_type xccdf_id =
           subprocess_check_output ev
             ([oscap_path cfg, ''xccdf'', ''generate'', ''fix'', ''--result-id'', rid,
               ''--template'', template]
              @ (case xccdf_id of None \<Rightarrow> [] | Some i \<Rightarrow> [''--xccdf-id'', i])
              @ [results_path])"
  using assms by (simp add: generate_fix_for_result_def get_result_id_def split: option.splits)

lemma example_results:
  "path_exists example_env ''/results/1/results.xml''"
  "path_exists example_env ''/results/2/results.xml''"
  "find_elem example_env results_tree ''.//xccdf:TestResult''
     [(''xccdf'', ''http://checklists.nist.gov/xccdf/1.2'')]
     = Inr (Some (Element ''{http://checklists.nist.gov/xccdf/1.2}TestResult''
                    [(''id'', ''xccdf_org.open-scap_testresult_1'')] None []))"
  "find_elem example_env empty_results_tree ''.//xccdf:TestResult''
     [(''xccdf'', ''http://checklists.nist.gov/xccdf/1.2'')] = Inr None"
  "attrib_at (Element ''{http://checklists.nist.gov/xccdf/1.2}TestResult''
                [(''id'', ''xccdf_org.open-scap_testresult_1'')] None []) ''id''
     = Inr ''xccdf_org.open-scap_testresult_1''"
  by (simp_all add: example_env_def results_tree_def empty_results_tree_def attrib_at_def
        ns_xccdf12_def)

text \<open>
  Claim C9. \<open>_fix_type_to_template\<close> maps \<open>bash\<close>, \<open>ansible\<close> and \<open>puppet\<close> to their
  templates and raises \<open>KeyError\<close> on every other token, for which
  \<open>generate_fix_for_result\<close> fails too. When the results file exists and parses and has no
  \<open>TestResult\<close> element, \<open>generate_fix_for_result\<close> fails with the error that the results
  document contains no results. When it has one with an \<open>id\<close> and the fix type is known,
  the result of \<open>generate_fix_for_result\<close> is the result of the captured child run with
  the primary tool, \<open>xccdf generate fix --result-id id --template template\<close>, then
  \<open>--xccdf-id\<close> and the id exactly when one is given, and the results path last.
\<close>

theorem generate_fix_for_result_arguments:
  "fix_type_to_template ''bash'' = Inr ''urn:xccdf:fix:script:sh'' \<and>
   fix_type_to_template ''ansible'' = Inr ''urn:xccdf:fix:script:ansible'' \<and>
   fix_type_to_template ''puppet'' = Inr ''urn:xccdf:fix:script:puppet'' \<and>
   (fix_type \<notin> {''bash'', ''ansible'', ''puppet''} \<longrightarrow>
      fix_type_to_template fix_type = Inl KeyError \<and>
      isl (generate_fix_for_result ev cfg results_path fix_type xccdf_id)) \<and>
   (\<forall>root. path_exists ev results_path \<and> parse ev results_path = Inr root \<and>
      find_elem ev root ''.//xccdf:TestResult''
        [(''xccdf'', ''http://checklists.nist.gov/xccdf/1.2'')] = Inr None \<longrightarrow>
        generate_fix_for_result ev cfg results_path fix_type xccdf_id
          = Inl (no_results results_path)) \<and>
   (\<forall>root tr rid template. path_exists ev results_path \<and> parse ev results_path = Inr root \<and>
      find_elem ev root ''.//xccdf:TestResult''
        [(''xccdf'', ''http://checklists.nist.gov/xccdf/1.2'')] = Inr (Some tr) \<and>
      attrib_at tr ''id'' = Inr rid \<and> fix_type_to_template fix_type = Inr template \<longrightarrow>
        generate_fix_for_result ev cfg results_path fix_type xccdf_id =
          subprocess_check_output ev
            ([oscap_path cfg, ''xccdf'', ''generate'', ''fix'', ''--result-id'', rid,
              ''--template'', template]
             @ (case xccdf_id of None \<Rightarrow> [] | Some i \<Rightarrow> [''--xccdf-id'', i])
             @ [results_path]))"
proof (intro conjI impI allI)
  show "fix_type_to_template ''bash'' = Inr ''urn:xccdf:fix:script:sh''"
    "fix_type_to_template ''ansible'' = Inr ''urn:xccdf:fix:script:ansible''"
    "fix_type_to_template ''puppet'' = Inr ''urn:xccdf:fix:script:puppet''"
    by (rule fix_type_known)+
next
  assume "fix_type \<notin> {''bash'', ''ansible'', ''puppet''}"
  then show k: "fix_type_to_template fix_type = Inl KeyError" by (rule fix_type_other)
  then show "isl (generate_fix_for_result ev cfg results_path fix_type xccdf_id)"
    by (rule generate_fix_unknown_type)
next
  fix root
  assume "path_exists ev results_path \<and> parse ev results_path = Inr root \<and>
      find_elem ev root ''.//xccdf:TestResult''
        [(''xccdf'', ''http://checklists.nist.gov/xccdf/1.2'')] = Inr None"
  then show "generate_fix_for_result ev cfg results_path fix_type xccdf_id
          = Inl (no_results results_path)"
    using generate_fix_no_results [of ev results_path root cfg fix_type xccdf_id] by simp
next
  fix root tr rid template
  assume "path_exists ev results_path \<and> parse ev results_path = Inr root \<and>
      find_elem ev root ''.//xccdf:TestResult''
        [(''xccdf'', ''http://checklists.nist.gov/xccdf/1.2'')] = Inr (Some tr) \<and>
      attrib_at tr ''id'' = Inr rid \<and> fix_type_to_template fix_type = Inr template"
  then show "generate_fix_for_result ev cfg results_path fix_type xccdf_id =
          subprocess_check_output ev
            ([oscap_path cfg, ''xccdf'', ''generate'', ''fix'', ''--result-id'', rid,
              ''--template'', template]
             @ (case xccdf_id of None \<Rightarrow> [] | Some i \<Rightarrow> [''--xccdf-id'', i])
             @ [results_path])"
    using generate_fix_invokes [of ev results_path root tr rid fix_type template cfg xccdf_id]
    by simp
qed

theorem generate_fix_for_result_arguments_witness:
  "generate_fix_for_result example_env example_config ''/results/1/results.xml'' ''bash'' None =
     subprocess_check_output example_env
       [''/usr/bin/oscap'', ''xccdf'', ''generate'', ''fix'',
        ''--result-id'', ''xccdf_org.open-scap_testresult_1'',
        ''--template'', ''urn:xccdf:fix:script:sh'', ''/results/1/results.xml''] \<and>
   generate_fix_for_result example_env example_config ''/results/1/results.xml'' ''ansible''
       (Some ''scap_org.open-scap_cref_ssg-xccdf.xml'') =
     subprocess_check_output example_env
       [''/usr/bin/oscap'', ''xccdf'', ''generate'', ''fix'',
        ''--result-id'', ''xccdf_org.open-scap_testresult_1'',
        ''--template'', ''urn:xccdf:fix:script:ansible'',
        ''--xccdf-id'', ''scap_org.open-scap_cref_ssg-xccdf.xml'', ''/results/1/results.xml''] \<and>
   generate_fix_for_result example_env example_config ''/results/2/results.xml'' ''bash'' None =
     Inl (no_results ''/results/2/results.xml'') \<and>
   isl (generate_fix_for_result example_env example_config ''/results/1/results.xml'' ''unknown''
          None)"
proof -
  have c: "oscap_path example_config = ''/usr/bin/oscap''" by (simp add: example_config_def)
  have 1: "generate_fix_for_result example_env example_config ''/results/1/results.xml'' ''bash''
             None =
     subprocess_check_output example_env
       [''/usr/bin/oscap'', ''xccdf'', ''generate'', ''fix'',
        ''--result-id'', ''xccdf_org.open-scap_testresult_1'',
        ''--template'', ''urn:xccdf:fix:script:sh'', ''/results/1/results.xml'']"
    using generate_fix_for_result_arguments [of "''bash''" example_env example_config "''/results/1/results.xml''" None]
      example_results example_parse(5) c
    by simp
  have 2: "generate_fix_for_result example_env example_config ''/results/1/results.xml''
             ''ansible'' (Some ''scap_org.open-scap_cref_ssg-xccdf.xml'') =
     subprocess_check_output example_env
       [''/usr/bin/oscap'', ''xccdf'', ''generate'', ''fix'',
        ''--result-id'', ''xccdf_org.open-scap_testresult_1'',
        ''--template'', ''urn:xccdf:fix:script:ansible'',
        ''--xccdf-id'', ''scap_org.open-scap_cref_ssg-xccdf.xml'', ''/results/1/results.xml'']"
    using generate_fix_for_result_arguments [of "''ansible''" example_env example_config "''/results/1/results.xml''"
                   "Some ''scap_org.open-scap_cref_ssg-xccdf.xml''"]
      example_results example_parse(5) c
    by simp
  have 3: "generate_fix_for_result example_env example_config ''/results/2/results.xml'' ''bash''
             None = Inl (no_results ''/results/2/results.xml'')"
    using generate_fix_for_result_arguments [of "''bash''" example_env example_config "''/results/2/results.xml''" None]
      example_results example_parse(6)
    by simp
  have 4: "isl (generate_fix_for_result example_env example_config ''/results/1/results.xml''
                  ''unknown'' None)"
    using generate_fix_for_result_arguments [of "''unknown''" example_env example_config "''/results/1/results.xml''" None]
    by simp
  from 1 2 3 4 show ?thesis by simp
qed

end
